theory Spec2Isabelle
  imports Main "HOL-Library.Char_ord" "HOL-Library.List_Lexorder" "HOL-Library.AList"
begin

section \<open>Text\<close>

text \<open>
  Python strings are modelled as HOL strings holding the UTF-8 bytes of the text, so that
  \<open>len(s.encode('utf-8'))\<close> is \<open>length s\<close>, and substring search, \<open>startswith\<close>
  and \<open>split\<close> are the operations on byte lists. \<open>lower\<close> folds the ASCII letters
  and \<open>strip\<close> removes ASCII white space; other bytes are left as they are.
\<close>

definition lower_char :: "char \<Rightarrow> char" where
  "lower_char c =
     (case map_of (zip ''ABCDEFGHIJKLMNOPQRSTUVWXYZ'' ''abcdefghijklmnopqrstuvwxyz'') c of
        Some d \<Rightarrow> d
      | None \<Rightarrow> c)"

definition lower :: "string \<Rightarrow> string" where
  "lower s = map lower_char s"

fun startswith :: "string \<Rightarrow> string \<Rightarrow> bool" where
  "startswith s [] = True"
| "startswith [] (p # ps) = False"
| "startswith (c # cs) (p # ps) = (c = p \<and> startswith cs ps)"

text \<open>\<open>str_in sub s\<close> is Python's \<open>sub in s\<close>.\<close>

fun str_in :: "string \<Rightarrow> string \<Rightarrow> bool" where
  "str_in sub [] = (sub = [])"
| "str_in sub (c # cs) = (startswith (c # cs) sub \<or> str_in sub cs)"

text \<open>\<open>split_on sep s\<close> is \<open>s.split(sep)\<close> for a one-character separator.\<close>

fun split_on :: "char \<Rightarrow> string \<Rightarrow> string list" where
  "split_on sep [] = [[]]"
| "split_on sep (c # cs) =
     (if c = sep then [] # split_on sep cs
      else (case split_on sep cs of
              [] \<Rightarrow> [[c]]
            | w # ws \<Rightarrow> (c # w) # ws))"

definition is_space :: "char \<Rightarrow> bool" where
  "is_space c = (c \<in> set [CHR '' '', CHR 0x09, CHR 0x0A, CHR 0x0B, CHR 0x0C, CHR 0x0D,
                            CHR 0x1C, CHR 0x1D, CHR 0x1E, CHR 0x1F])"

definition strip :: "string \<Rightarrow> string" where
  "strip s = rev (dropWhile is_space (rev (dropWhile is_space s)))"

text \<open>
  Text mode reading translates \<open>\r\n\<close> and a lone \<open>\r\<close> into \<open>\n\<close>
  (\<open>read_text\<close> opens the file with universal newlines).
\<close>

fun universal_newlines :: "string \<Rightarrow> string" where
  "universal_newlines [] = []"
| "universal_newlines [c] = [if c = CHR 0x0D then CHR 0x0A else c]"
| "universal_newlines (c # d # cs) =
     (if c = CHR 0x0D \<and> d = CHR 0x0A then CHR 0x0A # universal_newlines cs
      else if c = CHR 0x0D then CHR 0x0A # universal_newlines (d # cs)
      else c # universal_newlines (d # cs))"

section \<open>Paths\<close>

text \<open>
  A \<open>pathlib.Path\<close> on POSIX: whether it is absolute, and its parts. Constructing one from
  a string drops empty and \<open>.\<close> segments and keeps \<open>..\<close> segments.
\<close>

record Path =
  absolute :: bool
  parts :: "string list"

definition mkPath :: "string \<Rightarrow> Path" where
  "mkPath s =
     \<lparr> absolute = startswith s ''/'',
       parts = filter (\<lambda>seg. seg \<noteq> [] \<and> seg \<noteq> ''.'') (split_on CHR ''/'' s) \<rparr>"

fun join_parts :: "string list \<Rightarrow> string" where
  "join_parts [] = []"
| "join_parts [x] = x"
| "join_parts (x # y # ys) = x @ ''/'' @ join_parts (y # ys)"

definition str :: "Path \<Rightarrow> string" where
  "str p =
     (if absolute p then ''/'' @ join_parts (parts p)
      else if parts p = [] then ''.''
      else join_parts (parts p))"

definition name :: "Path \<Rightarrow> string" where
  "name p = (if parts p = [] then [] else last (parts p))"

text \<open>
  \<open>rfind_dot s\<close> is \<open>s.rfind('.')\<close>, with \<open>None\<close> for \<open>-1\<close>.
\<close>

fun rfind_dot :: "string \<Rightarrow> nat option" where
  "rfind_dot [] = None"
| "rfind_dot (c # cs) =
     (case rfind_dot cs of
        Some i \<Rightarrow> Some (Suc i)
      | None \<Rightarrow> if c = CHR ''.'' then Some 0 else None)"

definition suffix :: "Path \<Rightarrow> string" where
  "suffix p =
     (case rfind_dot (name p) of
        None \<Rightarrow> []
      | Some i \<Rightarrow> if 0 < i \<and> i < length (name p) - 1 then drop i (name p) else [])"

definition parent :: "Path \<Rightarrow> Path" where
  "parent p = p \<lparr> parts := butlast (parts p) \<rparr>"

definition joinpath :: "Path \<Rightarrow> string list \<Rightarrow> Path" where
  "joinpath p rel = p \<lparr> parts := parts p @ rel \<rparr>"

section \<open>The file system\<close>

text \<open>
  The storage the program runs against: a current directory, the objects by the parts of
  their real absolute path (in the order a directory scan yields them; the root is always a
  directory), storage faults that a call may meet (permissions, device errors), and the log
  of the storage calls made so far. Path resolution is not logged: it precedes the policy
  check, and the storage calls follow it.
\<close>

datatype exn =
    FileNotFoundError
  | NotADirectoryError
  | IsADirectoryError
  | FileExistsError
  | PermissionError
  | SymlinkLoop
  | UnicodeDecodeError
  | OSError

text \<open>
  A file holds bytes that decode as UTF-8 (\<open>Text\<close>, the bytes themselves) or that do not
  (\<open>Binary\<close>).
\<close>

datatype content = Text string | Binary string

datatype node = File content | Dir | Symlink string

datatype access =
    Stat Path
  | ReadText Path
  | ReadBytes Path
  | WriteText Path string
  | Mkdir Path
  | Iterdir Path
  | Rglob Path

record fs =
  cwd :: "string list"
  nodes :: "(string list \<times> node) list"
  faults :: "access \<Rightarrow> exn option"
  io_log :: "access list"

fun raw_bytes :: "content \<Rightarrow> string" where
  "raw_bytes (Text t) = t"
| "raw_bytes (Binary b) = b"

fun st_size :: "node \<Rightarrow> nat" where
  "st_size (File c) = length (raw_bytes c)"
| "st_size Dir = 0"
| "st_size (Symlink t) = length t"

definition lookup :: "fs \<Rightarrow> string list \<Rightarrow> node option" where
  "lookup s q = (if q = [] then Some Dir else map_of (nodes s) q)"

text \<open>
  \<open>realpath\<close> without strictness: every prefix that is a symbolic link is replaced by its
  target, \<open>..\<close> drops the last resolved part, and names that do not exist are kept. At
  most 40 links are followed; a longer chain is a loop (\<open>None\<close>).
\<close>

fun walk :: "(string list \<times> node) list \<Rightarrow> nat \<Rightarrow> string list \<Rightarrow> string list \<Rightarrow> string list option" where
  "walk ns fuel acc [] = Some acc"
| "walk ns fuel acc (c # rest) =
     (if c = ''..'' then walk ns fuel (butlast acc) rest
      else (case map_of ns (acc @ [c]) of
              Some (Symlink t) \<Rightarrow>
                (case fuel of
                   0 \<Rightarrow> None
                 | Suc k \<Rightarrow> walk ns k (if startswith t ''/'' then [] else acc)
                              (parts (mkPath t) @ rest))
            | _ \<Rightarrow> walk ns fuel (acc @ [c]) rest))"

definition realpath :: "fs \<Rightarrow> Path \<Rightarrow> string list option" where
  "realpath s p = walk (nodes s) 40 (if absolute p then [] else cwd s) (parts p)"

definition node_at :: "fs \<Rightarrow> Path \<Rightarrow> exn + node" where
  "node_at s p =
     (case realpath s p of
        None \<Rightarrow> Inl SymlinkLoop
      | Some q \<Rightarrow> (case lookup s q of None \<Rightarrow> Inl FileNotFoundError | Some n \<Rightarrow> Inr n))"

subsection \<open>Calls that may raise and that change the storage\<close>

type_synonym 'a io = "fs \<Rightarrow> (exn + 'a) \<times> fs"

definition return :: "'a \<Rightarrow> 'a io" where
  "return x = (\<lambda>s. (Inr x, s))"

definition raise :: "exn \<Rightarrow> 'a io" where
  "raise e = (\<lambda>s. (Inl e, s))"

definition bind :: "'a io \<Rightarrow> ('a \<Rightarrow> 'b io) \<Rightarrow> 'b io" where
  "bind m f = (\<lambda>s. case m s of (Inl e, s') \<Rightarrow> (Inl e, s') | (Inr x, s') \<Rightarrow> f x s')"

text \<open>\<open>try: m except Exception as e: h e\<close>\<close>

definition try_except :: "'a io \<Rightarrow> (exn \<Rightarrow> 'a io) \<Rightarrow> 'a io" where
  "try_except m h = (\<lambda>s. case m s of (Inl e, s') \<Rightarrow> h e s' | (Inr x, s') \<Rightarrow> (Inr x, s'))"

text \<open>\<open>try: m except (e1, e2, ...): h\<close>, other exceptions pass through.\<close>

definition try_except_only :: "exn list \<Rightarrow> 'a io \<Rightarrow> 'a io \<Rightarrow> 'a io" where
  "try_except_only es m h =
     (\<lambda>s. case m s of
             (Inl e, s') \<Rightarrow> if e \<in> set es then h s' else (Inl e, s')
           | (Inr x, s') \<Rightarrow> (Inr x, s'))"

definition lift :: "(fs \<Rightarrow> exn + 'a) \<Rightarrow> 'a io" where
  "lift f = (\<lambda>s. (f s, s))"

text \<open>A storage call is logged, and raises the fault the storage has for it, if any.\<close>

definition storage_call :: "access \<Rightarrow> unit io" where
  "storage_call a =
     (\<lambda>s. (case faults s a of Some e \<Rightarrow> Inl e | None \<Rightarrow> Inr (),
           s \<lparr> io_log := io_log s @ [a] \<rparr>))"

subsection \<open>The pathlib calls the program makes\<close>

definition resolve :: "Path \<Rightarrow> Path io" where
  "resolve p =
     lift (\<lambda>s. case realpath s p of
                 None \<Rightarrow> Inl SymlinkLoop
               | Some q \<Rightarrow> Inr \<lparr> absolute = True, parts = q \<rparr>)"

definition stat :: "Path \<Rightarrow> node io" where
  "stat p = bind (storage_call (Stat p)) (\<lambda>_. lift (\<lambda>s. node_at s p))"

text \<open>
  \<open>exists\<close>, \<open>is_file\<close> and \<open>is_dir\<close> answer \<open>False\<close> when \<open>stat\<close> fails because the
  path is missing, runs through a non-directory or loops, and raise on any other failure.
\<close>

definition ignored_error :: "exn \<Rightarrow> bool" where
  "ignored_error e = (e \<in> set [FileNotFoundError, NotADirectoryError, SymlinkLoop])"

definition stat_test :: "(node \<Rightarrow> bool) \<Rightarrow> Path \<Rightarrow> bool io" where
  "stat_test f p =
     try_except (bind (stat p) (\<lambda>n. return (f n)))
       (\<lambda>e. if ignored_error e then return False else raise e)"

definition exists :: "Path \<Rightarrow> bool io" where
  "exists p = stat_test (\<lambda>n. True) p"

definition is_file :: "Path \<Rightarrow> bool io" where
  "is_file p = stat_test (\<lambda>n. case n of File c \<Rightarrow> True | _ \<Rightarrow> False) p"

definition is_dir :: "Path \<Rightarrow> bool io" where
  "is_dir p = stat_test (\<lambda>n. n = Dir) p"

definition read_bytes :: "Path \<Rightarrow> string io" where
  "read_bytes p =
     bind (storage_call (ReadBytes p))
       (\<lambda>_. lift (\<lambda>s. case node_at s p of
                         Inl e \<Rightarrow> Inl e
                       | Inr (File c) \<Rightarrow> Inr (raw_bytes c)
                       | Inr _ \<Rightarrow> Inl IsADirectoryError))"

definition read_text :: "Path \<Rightarrow> string io" where
  "read_text p =
     bind (storage_call (ReadText p))
       (\<lambda>_. lift (\<lambda>s. case node_at s p of
                         Inl e \<Rightarrow> Inl e
                       | Inr (File (Text t)) \<Rightarrow> Inr (universal_newlines t)
                       | Inr (File (Binary b)) \<Rightarrow> Inl UnicodeDecodeError
                       | Inr _ \<Rightarrow> Inl IsADirectoryError))"

definition write_text :: "Path \<Rightarrow> string \<Rightarrow> unit io" where
  "write_text p data =
     bind (storage_call (WriteText p data))
       (\<lambda>_ s. case realpath s p of
                 None \<Rightarrow> (Inl SymlinkLoop, s)
               | Some q \<Rightarrow>
                   if lookup s q = Some Dir then (Inl IsADirectoryError, s)
                   else if lookup s (butlast q) = None then (Inl FileNotFoundError, s)
                   else if lookup s (butlast q) \<noteq> Some Dir then (Inl NotADirectoryError, s)
                   else (Inr (), s \<lparr> nodes := AList.update q (File (Text data)) (nodes s) \<rparr>))"

text \<open>\<open>mkdir(parents=True, exist_ok=True)\<close>\<close>

fun mkdirs :: "(string list \<times> node) list \<Rightarrow> string list \<Rightarrow> string list \<Rightarrow> exn + (string list \<times> node) list" where
  "mkdirs ns acc [] = Inr ns"
| "mkdirs ns acc (c # cs) =
     (case map_of ns (acc @ [c]) of
        None \<Rightarrow> mkdirs (ns @ [(acc @ [c], Dir)]) (acc @ [c]) cs
      | Some Dir \<Rightarrow> mkdirs ns (acc @ [c]) cs
      | Some _ \<Rightarrow> Inl (if cs = [] then FileExistsError else NotADirectoryError))"

definition mkdir :: "Path \<Rightarrow> unit io" where
  "mkdir p =
     bind (storage_call (Mkdir p))
       (\<lambda>_ s. case realpath s p of
                 None \<Rightarrow> (Inl SymlinkLoop, s)
               | Some q \<Rightarrow> (case mkdirs (nodes s) [] q of
                              Inl e \<Rightarrow> (Inl e, s)
                            | Inr ns \<Rightarrow> (Inr (), s \<lparr> nodes := ns \<rparr>)))"

text \<open>
  \<open>iterdir\<close> yields the entries of a directory and \<open>rglob('*')\<close> every object below it,
  as paths under the path that was asked for. Directories behind a symbolic link are not
  descended into.
\<close>

definition iterdir :: "Path \<Rightarrow> Path list io" where
  "iterdir p =
     bind (storage_call (Iterdir p))
       (\<lambda>_. lift (\<lambda>s. case realpath s p of
                         None \<Rightarrow> Inl SymlinkLoop
                       | Some q \<Rightarrow>
                           (case lookup s q of
                              None \<Rightarrow> Inl FileNotFoundError
                            | Some Dir \<Rightarrow>
                                Inr (map (\<lambda>k. joinpath p [last k])
                                       (filter (\<lambda>k. k \<noteq> [] \<and> butlast k = q) (map fst (nodes s))))
                            | Some _ \<Rightarrow> Inl NotADirectoryError)))"

definition rglob :: "Path \<Rightarrow> Path list io" where
  "rglob p =
     bind (storage_call (Rglob p))
       (\<lambda>_. lift (\<lambda>s. case realpath s p of
                         None \<Rightarrow> Inr []
                       | Some q \<Rightarrow>
                           Inr (map (\<lambda>k. joinpath p (drop (length q) k))
                                  (filter (\<lambda>k. length q < length k \<and> take (length q) k = q)
                                     (map fst (nodes s))))))"

section \<open>Security configuration\<close>

definition MAX_FILE_SIZE :: nat where
  "MAX_FILE_SIZE = 10 * 1024 * 1024"

definition ALLOWED_EXTENSIONS :: "string set" where
  "ALLOWED_EXTENSIONS =
     {''.txt'', ''.md'', ''.json'', ''.yaml'', ''.yml'', ''.csv'', ''.log'',
      ''.py'', ''.js'', ''.html'', ''.css'', ''.xml'', ''.ini'', ''.cfg''}"

definition DANGEROUS_EXTENSIONS :: "string set" where
  "DANGEROUS_EXTENSIONS = {''.exe'', ''.bat'', ''.cmd'', ''.sh'', ''.ps1'', ''.dll'', ''.so''}"

section \<open>SecureFileManager\<close>

record SecureFileManager =
  allowed_dirs :: "string set"

text \<open>
  \<open>__init__\<close>: the given directories, or the default ones when none are given, each
  resolved and kept as a string.
\<close>

definition init :: "string set \<Rightarrow> string set \<Rightarrow> SecureFileManager io" where
  "init DEFAULT_ALLOWED_DIRS dirs =
     (\<lambda>s. let ds = (if dirs = {} then DEFAULT_ALLOWED_DIRS else dirs) in
           if \<exists>d\<in>ds. realpath s (mkPath d) = None then (Inl SymlinkLoop, s)
           else (Inr \<lparr> allowed_dirs =
                         (\<lambda>d. str \<lparr> absolute = True, parts = the (realpath s (mkPath d)) \<rparr>) ` ds \<rparr>,
                 s))"

definition is_path_allowed :: "SecureFileManager \<Rightarrow> Path \<Rightarrow> bool io" where
  "is_path_allowed self file_path =
     try_except
       (bind (resolve file_path)
          (\<lambda>resolved_path.
             return (\<exists>allowed_dir \<in> allowed_dirs self. startswith (str resolved_path) allowed_dir)))
       (\<lambda>e. return False)"

text \<open>
  The body of \<open>_is_extension_allowed\<close>, with the two module constants it reads as
  parameters, and the function itself.
\<close>

definition extension_allowed_in :: "string set \<Rightarrow> string set \<Rightarrow> Path \<Rightarrow> bool" where
  "extension_allowed_in dangerous allowed file_path =
     (let extension = lower (suffix file_path) in
      if extension \<in> dangerous then False
      else if allowed \<noteq> {} \<and> extension \<notin> allowed then False
      else True)"

definition is_extension_allowed :: "Path \<Rightarrow> bool" where
  "is_extension_allowed file_path =
     extension_allowed_in DANGEROUS_EXTENSIONS ALLOWED_EXTENSIONS file_path"

subsection \<open>Results\<close>

text \<open>
  The error dictionaries \<open>{"error": message}\<close>, one constructor for each message the
  program builds, with the values the message is formatted from.
\<close>

datatype error =
    AccessDenied
  | FileNotFound string
  | NotAFile string
  | FileTypeNotAllowed string
  | FileTooLarge nat int
  | ContentTooLarge
  | ParentMissing string
  | DirectoryNotFound string
  | NotADirectory string
  | InvalidSearchDirectory string
  | TooLargeForHashing
  | CannotAccessFileInfo exn
  | FailedToRead exn
  | FailedToWrite exn
  | FailedToList exn
  | FailedToSearch exn
  | FailedToHash exn
  | FailedToGetInfo exn

text \<open>
  The metadata dictionary of \<open>_get_file_info\<close>. Its time stamps, permission digits and
  guessed MIME type are renderings of the same \<open>stat\<close> result and of the path string; they
  are left out.
\<close>

record FileInfo =
  info_name :: string
  info_path :: string
  info_size :: nat
  info_is_file :: bool
  info_is_dir :: bool
  info_extension :: string

definition get_file_info :: "Path \<Rightarrow> (error + FileInfo) io" where
  "get_file_info file_path =
     try_except
       (bind (stat file_path) (\<lambda>stat_info.
        bind (is_file file_path) (\<lambda>f.
        bind (is_dir file_path) (\<lambda>d.
          return (Inr \<lparr> info_name = name file_path,
                        info_path = str file_path,
                        info_size = st_size stat_info,
                        info_is_file = f,
                        info_is_dir = d,
                        info_extension = lower (suffix file_path) \<rparr>)))))
       (\<lambda>e. return (Inl (CannotAccessFileInfo e)))"

subsection \<open>read_file\<close>

datatype file_content = TextContent string | BinaryData nat

record read_result =
  content :: file_content
  size :: nat
  file_info :: "error + FileInfo"

text \<open>\<open>max_size or MAX_FILE_SIZE\<close>\<close>

definition size_limit :: "int option \<Rightarrow> int" where
  "size_limit max_size =
     (case max_size of
        None \<Rightarrow> int MAX_FILE_SIZE
      | Some m \<Rightarrow> if m = 0 then int MAX_FILE_SIZE else m)"

definition read_content :: "Path \<Rightarrow> file_content io" where
  "read_content path =
     try_except_only [UnicodeDecodeError]
       (bind (read_text path) (\<lambda>t. return (TextContent t)))
       (bind (read_bytes path) (\<lambda>b. return (BinaryData (length b))))"

definition read_file :: "SecureFileManager \<Rightarrow> string \<Rightarrow> int option \<Rightarrow> (error + read_result) io" where
  "read_file self file_path max_size =
     try_except
       (let path = mkPath file_path in
        bind (is_path_allowed self path) (\<lambda>allowed.
        if \<not> allowed then return (Inl AccessDenied) else
        bind (exists path) (\<lambda>ex.
        if \<not> ex then return (Inl (FileNotFound file_path)) else
        bind (is_file path) (\<lambda>f.
        if \<not> f then return (Inl (NotAFile file_path)) else
        if \<not> is_extension_allowed path then return (Inl (FileTypeNotAllowed (suffix path))) else
        bind (stat path) (\<lambda>stat_info.
        let file_size = st_size stat_info in
        if int file_size > size_limit max_size
        then return (Inl (FileTooLarge file_size (size_limit max_size))) else
        bind (read_content path) (\<lambda>c.
        bind (get_file_info path) (\<lambda>info.
          return (Inr \<lparr> content = c, size = file_size, file_info = info \<rparr>))))))))
       (\<lambda>e. return (Inl (FailedToRead e)))"

subsection \<open>write_file\<close>

record write_result =
  written_size :: nat
  written_info :: "error + FileInfo"

definition write_file :: "SecureFileManager \<Rightarrow> string \<Rightarrow> string \<Rightarrow> bool \<Rightarrow> (error + write_result) io" where
  "write_file self file_path data create_dirs =
     try_except
       (let path = mkPath file_path in
        bind (is_path_allowed self path) (\<lambda>allowed.
        if \<not> allowed then return (Inl AccessDenied) else
        if \<not> is_extension_allowed path then return (Inl (FileTypeNotAllowed (suffix path))) else
        if length data > MAX_FILE_SIZE then return (Inl ContentTooLarge) else
        bind (if create_dirs
              then bind (exists (parent path)) (\<lambda>ex.
                     if \<not> ex then mkdir (parent path) else return ())
              else return ()) (\<lambda>_.
        bind (exists (parent path)) (\<lambda>ex.
        if \<not> ex then return (Inl (ParentMissing (str (parent path)))) else
        bind (write_text path data) (\<lambda>_.
        bind (get_file_info path) (\<lambda>info.
          return (Inr \<lparr> written_size = length data, written_info = info \<rparr>)))))))
       (\<lambda>e. return (Inl (FailedToWrite e)))"

subsection \<open>list_directory\<close>

record list_result =
  directory :: string
  items :: "(error + FileInfo) list"
  total_items :: nat
  files :: nat
  directories :: nat

fun list_loop :: "bool \<Rightarrow> Path list \<Rightarrow> (error + FileInfo) list \<Rightarrow> (error + FileInfo) list io" where
  "list_loop include_hidden [] acc = return acc"
| "list_loop include_hidden (item # rest) acc =
     (if \<not> include_hidden \<and> startswith (name item) ''.''
      then list_loop include_hidden rest acc
      else bind (get_file_info item) (\<lambda>item_info.
             list_loop include_hidden rest (acc @ [item_info])))"

definition sort_name :: "error + FileInfo \<Rightarrow> string" where
  "sort_name x = lower (case x of Inl e \<Rightarrow> [] | Inr i \<Rightarrow> info_name i)"

definition list_directory :: "SecureFileManager \<Rightarrow> string \<Rightarrow> bool \<Rightarrow> (error + list_result) io" where
  "list_directory self dir_path include_hidden =
     try_except
       (let path = mkPath dir_path in
        bind (is_path_allowed self path) (\<lambda>allowed.
        if \<not> allowed then return (Inl AccessDenied) else
        bind (exists path) (\<lambda>ex.
        if \<not> ex then return (Inl (DirectoryNotFound dir_path)) else
        bind (is_dir path) (\<lambda>d.
        if \<not> d then return (Inl (NotADirectory dir_path)) else
        bind (iterdir path) (\<lambda>entries.
        bind (list_loop include_hidden entries []) (\<lambda>found.
        let sorted_items = sort_key sort_name found in
          return (Inr \<lparr> directory = str path,
                        items = sorted_items,
                        total_items = length sorted_items,
                        files = length (filter (\<lambda>i. case i of Inl e \<Rightarrow> False | Inr x \<Rightarrow> info_is_file x) sorted_items),
                        directories = length (filter (\<lambda>i. case i of Inl e \<Rightarrow> False | Inr x \<Rightarrow> info_is_dir x) sorted_items) \<rparr>)))))))
       (\<lambda>e. return (Inl (FailedToList e)))"

subsection \<open>search_files\<close>

datatype match_kind = filename | content_match

record match_info =
  match_file :: "error + FileInfo"
  match_type :: match_kind
  matching_lines :: "(nat \<times> string) list option"

record search_result =
  search_directory :: string
  search_pattern :: string
  matches :: "match_info list"
  total_matches :: nat

text \<open>The lines of a text that contain the pattern, numbered from 1 and stripped.\<close>

definition find_matching_lines :: "string \<Rightarrow> string \<Rightarrow> (nat \<times> string) list" where
  "find_matching_lines pattern text =
     (let lines = split_on (CHR 0x0A) text in
      map (\<lambda>(i, line). (i, strip line))
        (filter (\<lambda>(i, line). str_in (lower pattern) (lower line))
           (zip [1 ..< Suc (length lines)] lines)))"

text \<open>The inner \<open>try\<close> block of the loop: the content scan of one item.\<close>

definition scan_content :: "string \<Rightarrow> Path \<Rightarrow> match_info \<Rightarrow> match_info io" where
  "scan_content pattern item m =
     try_except_only [UnicodeDecodeError, PermissionError]
       (bind (stat item) (\<lambda>stat_info.
        if st_size stat_info \<le> MAX_FILE_SIZE
        then bind (read_text item) (\<lambda>text.
               if str_in (lower pattern) (lower text)
               then return (m \<lparr> match_type := content_match,
                                 matching_lines := Some (take 10 (find_matching_lines pattern text)) \<rparr>)
               else return m)
        else return m))
       (return m)"

text \<open>One turn of the loop: the match to append, if any.\<close>

definition search_item :: "SecureFileManager \<Rightarrow> string \<Rightarrow> bool \<Rightarrow> Path \<Rightarrow> match_info option io" where
  "search_item self pattern include_content item =
     bind (is_path_allowed self item) (\<lambda>allowed.
     if \<not> allowed then return None else
     if \<not> str_in (lower pattern) (lower (name item)) then return None else
     bind (get_file_info item) (\<lambda>info.
     let m = \<lparr> match_file = info, match_type = filename, matching_lines = None \<rparr> in
     bind (if include_content
           then bind (is_file item) (\<lambda>f.
                  if f \<and> is_extension_allowed item then scan_content pattern item m
                  else return m)
           else return m) (\<lambda>m'.
       return (Some m'))))"

fun search_loop :: "SecureFileManager \<Rightarrow> string \<Rightarrow> bool \<Rightarrow> Path list \<Rightarrow> match_info list \<Rightarrow> match_info list io" where
  "search_loop self pattern include_content [] acc = return acc"
| "search_loop self pattern include_content (item # rest) acc =
     bind (search_item self pattern include_content item) (\<lambda>r.
       search_loop self pattern include_content rest
         (case r of None \<Rightarrow> acc | Some m \<Rightarrow> acc @ [m]))"

definition search_files :: "SecureFileManager \<Rightarrow> string \<Rightarrow> string \<Rightarrow> bool \<Rightarrow> (error + search_result) io" where
  "search_files self search_dir pattern include_content =
     try_except
       (let path = mkPath search_dir in
        bind (is_path_allowed self path) (\<lambda>allowed.
        if \<not> allowed then return (Inl AccessDenied) else
        bind (exists path) (\<lambda>ex.
        bind (if \<not> ex then return True else bind (is_dir path) (\<lambda>d. return (\<not> d))) (\<lambda>invalid.
        if invalid then return (Inl (InvalidSearchDirectory search_dir)) else
        bind (rglob path) (\<lambda>found.
        bind (search_loop self pattern include_content found []) (\<lambda>ms.
          return (Inr \<lparr> search_directory = str path,
                        search_pattern = pattern,
                        matches = ms,
                        total_matches = length ms \<rparr>)))))))
       (\<lambda>e. return (Inl (FailedToSearch e)))"

subsection \<open>get_file_hash\<close>

text \<open>The three digest functions of \<open>hashlib\<close> that the program calls.\<close>

record hashlib =
  md5 :: "string \<Rightarrow> string"
  sha1 :: "string \<Rightarrow> string"
  sha256 :: "string \<Rightarrow> string"

record hash_result =
  hashed_file :: string
  hashed_size :: nat
  md5_digest :: string
  sha1_digest :: string
  sha256_digest :: string

definition get_file_hash :: "hashlib \<Rightarrow> SecureFileManager \<Rightarrow> string \<Rightarrow> (error + hash_result) io" where
  "get_file_hash lib self file_path =
     try_except
       (let path = mkPath file_path in
        bind (is_path_allowed self path) (\<lambda>allowed.
        if \<not> allowed then return (Inl AccessDenied) else
        bind (exists path) (\<lambda>ex.
        bind (if \<not> ex then return True else bind (is_file path) (\<lambda>f. return (\<not> f))) (\<lambda>missing.
        if missing then return (Inl (FileNotFound file_path)) else
        bind (stat path) (\<lambda>stat_info.
        if st_size stat_info > MAX_FILE_SIZE then return (Inl TooLargeForHashing) else
        bind (read_bytes path) (\<lambda>data.
          return (Inr \<lparr> hashed_file = str path,
                        hashed_size = length data,
                        md5_digest = md5 lib data,
                        sha1_digest = sha1 lib data,
                        sha256_digest = sha256 lib data \<rparr>)))))))
       (\<lambda>e. return (Inl (FailedToHash e)))"

subsection \<open>get_file_info\<close>

text \<open>
  The tool handler \<open>handle_get_file_info\<close>, from the path argument to the metadata or
  the error it renders.
\<close>

definition handle_get_file_info :: "SecureFileManager \<Rightarrow> string \<Rightarrow> (error + FileInfo) io" where
  "handle_get_file_info file_manager file_path =
     try_except
       (let path = mkPath file_path in
        bind (is_path_allowed file_manager path) (\<lambda>allowed.
        if \<not> allowed then return (Inl AccessDenied) else
        bind (exists path) (\<lambda>ex.
        if \<not> ex then return (Inl (FileNotFound file_path)) else
        get_file_info path)))
       (\<lambda>e. return (Inl (FailedToGetInfo e)))"

section \<open>What the storage holds at a path\<close>

text \<open>
  The answers of the checks of the program as functions of the storage: the value
  \<open>_is_path_allowed\<close> returns, and what a fault-free \<open>exists\<close>, \<open>is_file\<close>,
  \<open>is_dir\<close> and \<open>stat().st_size\<close> find at a path.
\<close>

definition path_ok :: "SecureFileManager \<Rightarrow> fs \<Rightarrow> Path \<Rightarrow> bool" where
  "path_ok self s p =
     (case realpath s p of
        None \<Rightarrow> False
      | Some q \<Rightarrow> \<exists>d \<in> allowed_dirs self. startswith (str \<lparr>absolute = True, parts = q\<rparr>) d)"

definition path_exists :: "fs \<Rightarrow> Path \<Rightarrow> bool" where
  "path_exists s p = (case node_at s p of Inl e \<Rightarrow> False | Inr n \<Rightarrow> True)"

definition is_regular :: "fs \<Rightarrow> Path \<Rightarrow> bool" where
  "is_regular s p = (case node_at s p of Inr (File c) \<Rightarrow> True | _ \<Rightarrow> False)"

definition is_directory :: "fs \<Rightarrow> Path \<Rightarrow> bool" where
  "is_directory s p = (node_at s p = Inr Dir)"

definition size_of :: "fs \<Rightarrow> Path \<Rightarrow> nat" where
  "size_of s p = (case node_at s p of Inl e \<Rightarrow> 0 | Inr n \<Rightarrow> st_size n)"

text \<open>What \<open>read_file\<close> returns for the bytes of a file, and the storage calls it takes.\<close>

fun shown :: "content \<Rightarrow> file_content" where
  "shown (Text t) = TextContent (universal_newlines t)"
| "shown (Binary b) = BinaryData (length b)"

fun read_calls :: "Path \<Rightarrow> content \<Rightarrow> access list" where
  "read_calls p (Text t) = [ReadText p]"
| "read_calls p (Binary b) = [ReadText p, ReadBytes p]"

section \<open>The preconditions of the operations\<close>

text \<open>
  The preconditions of each operation in the order in which the specification lists them,
  as facts about the storage, each with the error the operation answers when it is the first
  one that is violated. Resolution is part of the path check; for \<open>write_file\<close> the
  parent has to exist unless it is to be created.
\<close>

fun first_violation :: "(bool \<times> error) list \<Rightarrow> error option" where
  "first_violation [] = None"
| "first_violation ((ok, e) # rest) = (if ok then first_violation rest else Some e)"

definition read_preconditions :: "SecureFileManager \<Rightarrow> fs \<Rightarrow> string \<Rightarrow> int option \<Rightarrow> (bool \<times> error) list" where
  "read_preconditions self s file_path max_size =
     (let path = mkPath file_path in
      [(fst (is_path_allowed self path s) = Inr True, AccessDenied),
       (path_exists s path, FileNotFound file_path),
       (is_regular s path, NotAFile file_path),
       (is_extension_allowed path, FileTypeNotAllowed (suffix path)),
       (int (size_of s path) \<le> size_limit max_size,
          FileTooLarge (size_of s path) (size_limit max_size))])"

definition write_preconditions :: "SecureFileManager \<Rightarrow> fs \<Rightarrow> string \<Rightarrow> string \<Rightarrow> bool \<Rightarrow> (bool \<times> error) list" where
  "write_preconditions self s file_path data create_dirs =
     (let path = mkPath file_path in
      [(fst (is_path_allowed self path s) = Inr True, AccessDenied),
       (is_extension_allowed path, FileTypeNotAllowed (suffix path)),
       (length data \<le> MAX_FILE_SIZE, ContentTooLarge),
       (create_dirs \<or> path_exists s (parent path), ParentMissing (str (parent path)))])"

definition list_preconditions :: "SecureFileManager \<Rightarrow> fs \<Rightarrow> string \<Rightarrow> (bool \<times> error) list" where
  "list_preconditions self s dir_path =
     (let path = mkPath dir_path in
      [(fst (is_path_allowed self path s) = Inr True, AccessDenied),
       (path_exists s path, DirectoryNotFound dir_path),
       (is_directory s path, NotADirectory dir_path)])"

definition search_preconditions :: "SecureFileManager \<Rightarrow> fs \<Rightarrow> string \<Rightarrow> (bool \<times> error) list" where
  "search_preconditions self s search_dir =
     (let path = mkPath search_dir in
      [(fst (is_path_allowed self path s) = Inr True, AccessDenied),
       (path_exists s path, InvalidSearchDirectory search_dir),
       (is_directory s path, InvalidSearchDirectory search_dir)])"

definition info_preconditions :: "SecureFileManager \<Rightarrow> fs \<Rightarrow> string \<Rightarrow> (bool \<times> error) list" where
  "info_preconditions self s file_path =
     (let path = mkPath file_path in
      [(fst (is_path_allowed self path s) = Inr True, AccessDenied),
       (path_exists s path, FileNotFound file_path)])"

definition hash_preconditions :: "SecureFileManager \<Rightarrow> fs \<Rightarrow> string \<Rightarrow> (bool \<times> error) list" where
  "hash_preconditions self s file_path =
     (let path = mkPath file_path in
      [(fst (is_path_allowed self path s) = Inr True, AccessDenied),
       (path_exists s path, FileNotFound file_path),
       (is_regular s path, FileNotFound file_path),
       (size_of s path \<le> MAX_FILE_SIZE, TooLargeForHashing)])"

section \<open>Statements about runs\<close>

text \<open>
  \<open>logs_only P m\<close>: whatever the storage and the outcome, running \<open>m\<close> only appends
  storage calls that satisfy \<open>P\<close> to the log. \<open>returns Q m\<close>: every value that
  \<open>m\<close> returns satisfies \<open>Q\<close>.
\<close>

definition logs_only :: "(access \<Rightarrow> bool) \<Rightarrow> 'a io \<Rightarrow> bool" where
  "logs_only P m = (\<forall>s r s'. m s = (r, s') \<longrightarrow> (\<exists>l. io_log s' = io_log s @ l \<and> list_all P l))"

definition returns :: "('a \<Rightarrow> bool) \<Rightarrow> 'a io \<Rightarrow> bool" where
  "returns Q m = (\<forall>s x s'. m s = (Inr x, s') \<longrightarrow> Q x)"

text \<open>The storage calls a search may make: metadata, the directory scan, and reading the
  text of files whose extension is allowed.\<close>

fun scan_call :: "access \<Rightarrow> bool" where
  "scan_call (Stat p) = True"
| "scan_call (Rglob p) = True"
| "scan_call (ReadText p) = is_extension_allowed p"
| "scan_call a = False"

text \<open>A match whose list of matching lines, if it has one, has at most 10 entries.\<close>

definition capped :: "match_info \<Rightarrow> bool" where
  "capped m = (case matching_lines m of None \<Rightarrow> True | Some ls \<Rightarrow> length ls \<le> 10)"

section \<open>Example file systems\<close>

text \<open>
  A tree with the directory \<open>/a/b\<close>, a file inside it, and a sibling directory \<open>/a/bc\<close>
  holding a file; the manager is configured with the single root \<open>/a/b\<close>.
\<close>

definition fs_ab :: fs where
  "fs_ab =
     \<lparr> cwd = [],
       nodes = [([''a''], Dir),
                ([''a'', ''b''], Dir),
                ([''a'', ''b'', ''c''], File (Text ''inside'')),
                ([''a'', ''bc''], Dir),
                ([''a'', ''bc'', ''notes.txt''], File (Text ''outside''))],
       faults = (\<lambda>a. None),
       io_log = [] \<rparr>"

definition manager_ab :: SecureFileManager where
  "manager_ab = \<lparr> allowed_dirs = {''/a/b''} \<rparr>"

text \<open>
  A sandbox with one file of exactly \<open>MAX_FILE_SIZE\<close> bytes and one that is a byte
  longer.
\<close>

definition big_text :: "nat \<Rightarrow> string" where
  "big_text n = replicate n (CHR ''a'')"

definition fs_big :: fs where
  "fs_big =
     \<lparr> cwd = [],
       nodes = [([''sandbox''], Dir),
                ([''sandbox'', ''limit.txt''], File (Text (big_text 10485760))),
                ([''sandbox'', ''over.txt''], File (Text (big_text 10485761)))],
       faults = (\<lambda>a. None),
       io_log = [] \<rparr>"

definition manager_sandbox :: SecureFileManager where
  "manager_sandbox = \<lparr> allowed_dirs = {''/sandbox''} \<rparr>"

text \<open>
  The sandbox of the scenario: \<open>/sandbox/notes.txt\<close> holds \<open>hello world\<close>.
\<close>

definition fs_sandbox :: fs where
  "fs_sandbox =
     \<lparr> cwd = [],
       nodes = [([''sandbox''], Dir),
                ([''sandbox'', ''notes.txt''], File (Text ''hello world''))],
       faults = (\<lambda>a. None),
       io_log = [] \<rparr>"

text \<open>
  A sandbox with two symbolic links that point at each other, on storage that refuses
  \<open>stat\<close> on the sandbox directory.
\<close>

definition fs_loop :: fs where
  "fs_loop =
     \<lparr> cwd = [],
       nodes = [([''sandbox''], Dir),
                ([''sandbox'', ''a''], Symlink ''b''),
                ([''sandbox'', ''b''], Symlink ''a'')],
       faults = (\<lambda>a. if a = Stat (mkPath ''/sandbox'') then Some PermissionError else None),
       io_log = [] \<rparr>"

text \<open>
  A sandbox with a text file of twelve lines \<open>x\<close> and a file without extension, and the
  match that a search for \<open>X\<close> finds in the text file.
\<close>

definition fs_lines :: fs where
  "fs_lines =
     \<lparr> cwd = [],
       nodes = [([''sandbox''], Dir),
                ([''sandbox'', ''x.txt''],
                   File (Text ''x\<newline>x\<newline>x\<newline>x\<newline>x\<newline>x\<newline>x\<newline>x\<newline>x\<newline>x\<newline>x\<newline>x'')),
                ([''sandbox'', ''README''], File (Text ''read me''))],
       faults = (\<lambda>a. None),
       io_log = [] \<rparr>"

definition lines_match :: match_info where
  "lines_match =
     \<lparr> match_file = Inr \<lparr> info_name = ''x.txt'', info_path = ''/sandbox/x.txt'',
                              info_size = 23, info_is_file = True, info_is_dir = False,
                              info_extension = ''.txt'' \<rparr>,
       match_type = content_match,
       matching_lines = Some [(1, ''x''), (2, ''x''), (3, ''x''), (4, ''x''), (5, ''x''),
                              (6, ''x''), (7, ''x''), (8, ''x''), (9, ''x''), (10, ''x'')] \<rparr>"

text \<open>A sandbox holding one executable.\<close>

definition fs_tool :: fs where
  "fs_tool =
     \<lparr> cwd = [],
       nodes = [([''sandbox''], Dir),
                ([''sandbox'', ''tool.exe''], File (Binary [CHR 0xFF, CHR 0xFE]))],
       faults = (\<lambda>a. None),
       io_log = [] \<rparr>"

section \<open>Properties\<close>

lemmas run_defs =
  is_path_allowed_def try_except_def try_except_only_def bind_def resolve_def lift_def
  realpath_def mkPath_def return_def raise_def str_def storage_call_def stat_def
  stat_test_def exists_def is_file_def is_dir_def node_at_def lookup_def ignored_error_def
  read_text_def read_bytes_def name_def suffix_def parent_def joinpath_def
  get_file_info_def lower_def lower_char_def Let_def

lemmas policy_defs =
  is_extension_allowed_def extension_allowed_in_def ALLOWED_EXTENSIONS_def
  DANGEROUS_EXTENSIONS_def size_limit_def MAX_FILE_SIZE_def

subsection \<open>Running the calls\<close>

lemma realpath_log [simp]: "realpath (s\<lparr>io_log := l\<rparr>) p = realpath s p"
  by (simp add: realpath_def)

lemma lookup_log [simp]: "lookup (s\<lparr>io_log := l\<rparr>) q = lookup s q"
  by (simp add: lookup_def)

lemma node_at_log [simp]: "node_at (s\<lparr>io_log := l\<rparr>) p = node_at s p"
  by (simp add: node_at_def split: option.splits)

lemma is_path_allowed_run: "is_path_allowed self p s = (Inr (path_ok self s p), s)"
  by (simp add: is_path_allowed_def try_except_def bind_def resolve_def lift_def return_def path_ok_def
      split: option.splits)

lemma path_ok_log [simp]: "path_ok self (s\<lparr>io_log := l\<rparr>) p = path_ok self s p"
  by (simp add: path_ok_def)

lemma try_except_total: "\<exists>r s'. try_except m (\<lambda>e. return (h e)) s = (Inr r, s')"
  by (cases "m s") (auto simp add: try_except_def return_def split: sum.splits)

lemma is_path_allowed_fst: "fst (is_path_allowed self p s) = Inr (path_ok self s p)"
  by (simp add: is_path_allowed_run)

lemma stat_run:
  "stat p s = ((case faults s (Stat p) of Some e \<Rightarrow> Inl e | None \<Rightarrow> node_at s p),
               s\<lparr>io_log := io_log s @ [Stat p]\<rparr>)"
  by (simp add: stat_def bind_def storage_call_def lift_def split: option.splits)

lemma stat_test_run:
  "stat_test f p s =
     ((case faults s (Stat p) of
         Some e \<Rightarrow> if ignored_error e then Inr False else Inl e
       | None \<Rightarrow> (case node_at s p of
                    Inl e \<Rightarrow> if ignored_error e then Inr False else Inl e
                  | Inr n \<Rightarrow> Inr (f n))),
      s\<lparr>io_log := io_log s @ [Stat p]\<rparr>)"
  by (simp add: stat_test_def try_except_def bind_def stat_run return_def raise_def split: option.splits sum.splits)

lemma observers_log [simp]:
  "path_exists (s\<lparr>io_log := l\<rparr>) p = path_exists s p"
  "is_regular (s\<lparr>io_log := l\<rparr>) p = is_regular s p"
  "is_directory (s\<lparr>io_log := l\<rparr>) p = is_directory s p"
  "size_of (s\<lparr>io_log := l\<rparr>) p = size_of s p"
  by (simp_all add: path_exists_def is_regular_def is_directory_def size_of_def)

lemma node_at_errors: "node_at s p = Inl e \<Longrightarrow> ignored_error e"
  by (auto simp add: node_at_def ignored_error_def split: option.splits)

lemma exists_run:
  "faults s (Stat p) = None \<Longrightarrow>
   exists p s = (Inr (path_exists s p), s\<lparr>io_log := io_log s @ [Stat p]\<rparr>)"
  by (auto simp add: exists_def stat_test_run path_exists_def dest: node_at_errors split: sum.splits)

lemma is_file_run:
  "faults s (Stat p) = None \<Longrightarrow>
   is_file p s = (Inr (is_regular s p), s\<lparr>io_log := io_log s @ [Stat p]\<rparr>)"
  by (auto simp add: is_file_def stat_test_run is_regular_def dest: node_at_errors split: sum.splits node.splits)

lemma is_dir_run:
  "faults s (Stat p) = None \<Longrightarrow>
   is_dir p s = (Inr (is_directory s p), s\<lparr>io_log := io_log s @ [Stat p]\<rparr>)"
  by (auto simp add: is_dir_def stat_test_run is_directory_def dest: node_at_errors split: sum.splits node.splits)

lemma get_file_info_run:
  "faults s (Stat p) = None \<Longrightarrow> node_at s p = Inr n \<Longrightarrow>
   get_file_info p s =
     (Inr (Inr \<lparr> info_name = name p, info_path = str p, info_size = st_size n,
                  info_is_file = is_regular s p, info_is_dir = is_directory s p,
                  info_extension = lower (suffix p) \<rparr>),
      s\<lparr>io_log := io_log s @ [Stat p, Stat p, Stat p]\<rparr>)"
  by (simp add: get_file_info_def try_except_def bind_def stat_run is_file_run is_dir_run return_def
      is_regular_def is_directory_def)

lemma read_content_run:
  "faults s (ReadText p) = None \<Longrightarrow> faults s (ReadBytes p) = None \<Longrightarrow> node_at s p = Inr (File c) \<Longrightarrow>
   read_content p s = (Inr (shown c), s\<lparr>io_log := io_log s @ read_calls p c\<rparr>)"
  by (cases c) (simp_all add: read_content_def try_except_only_def bind_def read_text_def read_bytes_def
      storage_call_def lift_def return_def)

lemma read_file_regular:
  assumes "faults s = (\<lambda>a. None)"
    and "fst (is_path_allowed self (mkPath file_path) s) = Inr True"
    and "node_at s (mkPath file_path) = Inr (File c)"
  shows "fst (read_file self file_path max_size s) =
     (if \<not> is_extension_allowed (mkPath file_path)
      then Inr (Inl (FileTypeNotAllowed (suffix (mkPath file_path))))
      else if int (length (raw_bytes c)) > size_limit max_size
      then Inr (Inl (FileTooLarge (length (raw_bytes c)) (size_limit max_size)))
      else Inr (Inr \<lparr> content = shown c, size = length (raw_bytes c),
                       file_info = Inr \<lparr> info_name = name (mkPath file_path),
                                          info_path = str (mkPath file_path),
                                          info_size = length (raw_bytes c),
                                          info_is_file = True, info_is_dir = False,
                                          info_extension = lower (suffix (mkPath file_path)) \<rparr> \<rparr>))"
proof -
  let ?p = "mkPath file_path"
  have ok: "path_ok self s ?p" using assms(2) by (simp add: is_path_allowed_fst)
  have ex: "path_exists s ?p" "is_regular s ?p" "\<not> is_directory s ?p"
    using assms(3) by (simp_all add: path_exists_def is_regular_def is_directory_def)
  show ?thesis
  proof (cases "is_extension_allowed ?p")
    case False
    then show ?thesis
      using ok ex assms(1)
      by (simp add: read_file_def try_except_def bind_def return_def Let_def is_path_allowed_run
          exists_run is_file_run)
  next
    case True
    show ?thesis
    proof (cases "int (length (raw_bytes c)) > size_limit max_size")
      case True
      then show ?thesis
        using ok ex assms(1,3) \<open>is_extension_allowed ?p\<close>
        by (simp add: read_file_def try_except_def bind_def return_def Let_def is_path_allowed_run
            exists_run is_file_run stat_run)
    next
      case False
      let ?s3 = "s\<lparr>io_log := io_log s @ [Stat ?p] @ [Stat ?p] @ [Stat ?p]\<rparr>"
      let ?s4 = "?s3\<lparr>io_log := io_log ?s3 @ read_calls ?p c\<rparr>"
      have rcp: "read_content ?p ?s3 = (Inr (shown c), ?s4)"
        using read_content_run [of ?s3 ?p c] assms(1,3) by simp
      have gi: "get_file_info ?p ?s4 =
          (Inr (Inr \<lparr> info_name = name ?p, info_path = str ?p, info_size = length (raw_bytes c),
                  info_is_file = True, info_is_dir = False,
                  info_extension = lower (suffix ?p) \<rparr>),
           ?s4\<lparr>io_log := io_log ?s4 @ [Stat ?p, Stat ?p, Stat ?p]\<rparr>)"
        using get_file_info_run [of ?s4 ?p "File c"] assms(1,3) ex
        by simp
      show ?thesis
        using ok ex assms(1,3) \<open>is_extension_allowed ?p\<close> False rcp gi
        by (simp add: read_file_def try_except_def bind_def return_def Let_def is_path_allowed_run
            exists_run is_file_run stat_run)
    qed
  qed
qed


lemma read_bytes_run:
  "faults s (ReadBytes p) = None \<Longrightarrow> node_at s p = Inr (File c) \<Longrightarrow>
   read_bytes p s = (Inr (raw_bytes c), s\<lparr>io_log := io_log s @ [ReadBytes p]\<rparr>)"
  by (simp add: read_bytes_def bind_def storage_call_def lift_def)

lemma get_file_hash_regular:
  assumes "faults s = (\<lambda>a. None)"
    and "fst (is_path_allowed self (mkPath file_path) s) = Inr True"
    and "node_at s (mkPath file_path) = Inr (File c)"
  shows "fst (get_file_hash lib self file_path s) =
     (if length (raw_bytes c) > MAX_FILE_SIZE then Inr (Inl TooLargeForHashing)
      else Inr (Inr \<lparr> hashed_file = str (mkPath file_path),
                       hashed_size = length (raw_bytes c),
                       md5_digest = md5 lib (raw_bytes c),
                       sha1_digest = sha1 lib (raw_bytes c),
                       sha256_digest = sha256 lib (raw_bytes c) \<rparr>))"
proof -
  let ?p = "mkPath file_path"
  have ok: "path_ok self s ?p" using assms(2) by (simp add: is_path_allowed_fst)
  have ex: "path_exists s ?p" "is_regular s ?p"
    using assms(3) by (simp_all add: path_exists_def is_regular_def)
  show ?thesis
    using ok ex assms(1,3)
    by (simp add: get_file_hash_def try_except_def bind_def return_def Let_def is_path_allowed_run
        exists_run is_file_run stat_run read_bytes_run)
qed

lemma universal_newlines_plain: "CHR 0x0D \<notin> set t \<Longrightarrow> universal_newlines t = t"
  by (induction t rule: universal_newlines.induct) auto

lemma length_big_text [simp]: "length (big_text n) = n"
  by (simp add: big_text_def)

lemma universal_newlines_big_text [simp]: "universal_newlines (big_text n) = big_text n"
  by (rule universal_newlines_plain) (simp add: big_text_def)

lemma fs_big_facts:
  "faults fs_big = (\<lambda>a. None)"
  "fst (is_path_allowed manager_sandbox (mkPath ''/sandbox/limit.txt'') fs_big) = Inr True"
  "fst (is_path_allowed manager_sandbox (mkPath ''/sandbox/over.txt'') fs_big) = Inr True"
  "node_at fs_big (mkPath ''/sandbox/limit.txt'') = Inr (File (Text (big_text 10485760)))"
  "node_at fs_big (mkPath ''/sandbox/over.txt'') = Inr (File (Text (big_text 10485761)))"
  "is_extension_allowed (mkPath ''/sandbox/limit.txt'')"
  "is_extension_allowed (mkPath ''/sandbox/over.txt'')"
  by (simp_all add: fs_big_def manager_sandbox_def run_defs policy_defs)

lemma fs_sandbox_facts:
  "faults fs_sandbox = (\<lambda>a. None)"
  "fst (is_path_allowed manager_sandbox (mkPath ''/sandbox/notes.txt'') fs_sandbox) = Inr True"
  "node_at fs_sandbox (mkPath ''/sandbox/notes.txt'') = Inr (File (Text ''hello world''))"
  "is_extension_allowed (mkPath ''/sandbox/notes.txt'')"
  by (simp_all add: fs_sandbox_def manager_sandbox_def run_defs policy_defs)

subsection \<open>Rules for runs\<close>

lemma logs_onlyD:
  "logs_only P m \<Longrightarrow> m s = (r, s') \<Longrightarrow> \<exists>l. io_log s' = io_log s @ l \<and> list_all P l"
  unfolding logs_only_def by blast

lemma logs_only_return [intro!]: "logs_only P (return x)"
  by (simp add: logs_only_def return_def)

lemma logs_only_raise [intro!]: "logs_only P (raise e)"
  by (simp add: logs_only_def raise_def)

lemma logs_only_lift [intro!]: "logs_only P (lift f)"
  by (simp add: logs_only_def lift_def)

lemma logs_only_storage_call [intro]: "P a \<Longrightarrow> logs_only P (storage_call a)"
  by (auto simp add: logs_only_def storage_call_def)

lemma logs_only_bind [intro!]:
  assumes "logs_only P m" and "\<And>x. logs_only P (f x)"
  shows "logs_only P (bind m f)"
  unfolding logs_only_def
proof (intro allI impI)
  fix s r s'
  assume run: "bind m f s = (r, s')"
  obtain r1 s1 where m: "m s = (r1, s1)" by (cases "m s")
  then obtain l1 where l1: "io_log s1 = io_log s @ l1" "list_all P l1"
    using logs_onlyD [OF assms(1)] by blast
  show "\<exists>l. io_log s' = io_log s @ l \<and> list_all P l"
  proof (cases r1)
    case (Inl e)
    then have "s' = s1" using run m by (simp add: bind_def)
    then show ?thesis using l1 by blast
  next
    case (Inr x)
    then have "f x s1 = (r, s')" using run m by (simp add: bind_def)
    then obtain l2 where "io_log s' = io_log s1 @ l2" "list_all P l2"
      using logs_onlyD [OF assms(2)] by blast
    then have "io_log s' = io_log s @ (l1 @ l2) \<and> list_all P (l1 @ l2)"
      using l1 by simp
    then show ?thesis by blast
  qed
qed

lemma logs_only_try_except [intro!]:
  assumes "logs_only P m" and "\<And>e. logs_only P (h e)"
  shows "logs_only P (try_except m h)"
  unfolding logs_only_def
proof (intro allI impI)
  fix s r s'
  assume run: "try_except m h s = (r, s')"
  obtain r1 s1 where m: "m s = (r1, s1)" by (cases "m s")
  then obtain l1 where l1: "io_log s1 = io_log s @ l1" "list_all P l1"
    using logs_onlyD [OF assms(1)] by blast
  show "\<exists>l. io_log s' = io_log s @ l \<and> list_all P l"
  proof (cases r1)
    case (Inr x)
    then have "s' = s1" using run m by (simp add: try_except_def)
    then show ?thesis using l1 by blast
  next
    case (Inl e)
    then have "h e s1 = (r, s')" using run m by (simp add: try_except_def)
    then obtain l2 where "io_log s' = io_log s1 @ l2" "list_all P l2"
      using logs_onlyD [OF assms(2)] by blast
    then have "io_log s' = io_log s @ (l1 @ l2) \<and> list_all P (l1 @ l2)"
      using l1 by simp
    then show ?thesis by blast
  qed
qed

lemma try_except_only_eq:
  "try_except_only es m h = try_except m (\<lambda>e. if e \<in> set es then h else raise e)"
  by (auto simp add: try_except_only_def try_except_def raise_def fun_eq_iff split: prod.splits sum.splits)

lemma logs_only_try_except_only [intro!]:
  assumes "logs_only P m" and "logs_only P h"
  shows "logs_only P (try_except_only es m h)"
  unfolding try_except_only_eq using assms by (intro logs_only_try_except) auto

lemma logs_only_if [intro!]:
  "(c \<Longrightarrow> logs_only P a) \<Longrightarrow> (\<not> c \<Longrightarrow> logs_only P b) \<Longrightarrow> logs_only P (if c then a else b)"
  by simp

lemma logs_only_is_path_allowed [intro!]: "logs_only P (is_path_allowed self p)"
  by (simp add: logs_only_def is_path_allowed_run)

lemma logs_only_stat: "P (Stat p) \<Longrightarrow> logs_only P (stat p)"
  unfolding stat_def by auto

lemma logs_only_stat_test: "P (Stat p) \<Longrightarrow> logs_only P (stat_test f p)"
  unfolding stat_test_def by (auto intro: logs_only_stat)

lemma logs_only_get_file_info: "P (Stat p) \<Longrightarrow> logs_only P (get_file_info p)"
  unfolding get_file_info_def is_file_def is_dir_def
  by (auto intro: logs_only_stat logs_only_stat_test)

lemma logs_only_scan_content:
  "is_extension_allowed item \<Longrightarrow> logs_only scan_call (scan_content pattern item m)"
  unfolding scan_content_def read_text_def
  by (auto intro: logs_only_stat)

lemma logs_only_search_item:
  "logs_only scan_call (search_item self pattern include_content item)"
  unfolding search_item_def is_file_def Let_def
  by (auto intro: logs_only_stat_test logs_only_get_file_info logs_only_scan_content)

lemma logs_only_search_loop:
  "logs_only scan_call (search_loop self pattern include_content found acc)"
  by (induction found arbitrary: acc) (auto intro: logs_only_search_item)

lemma logs_only_search_files:
  "logs_only scan_call (search_files self search_dir pattern include_content)"
  unfolding search_files_def exists_def is_dir_def rglob_def Let_def
  by (auto intro: logs_only_stat_test logs_only_search_loop)


lemma returns_return: "Q x \<Longrightarrow> returns Q (return x)"
  by (simp add: returns_def return_def)

lemma returns_bind: "(\<And>x. returns Q (f x)) \<Longrightarrow> returns Q (bind m f)"
  by (auto simp add: returns_def bind_def split: prod.splits sum.splits)

lemma returns_bind2:
  assumes "returns Q' m" and "\<And>x. Q' x \<Longrightarrow> returns Q (f x)"
  shows "returns Q (bind m f)"
  unfolding returns_def
proof (intro allI impI)
  fix s x s'
  assume "bind m f s = (Inr x, s')"
  then obtain y s1 where m: "m s = (Inr y, s1)" and f: "f y s1 = (Inr x, s')"
    by (auto simp add: bind_def split: prod.splits sum.splits)
  from assms(1) m have "Q' y" unfolding returns_def by blast
  from assms(2) [OF this] f show "Q x" unfolding returns_def by blast
qed

lemma returns_try_except:
  "returns Q m \<Longrightarrow> (\<And>e. returns Q (h e)) \<Longrightarrow> returns Q (try_except m h)"
  by (auto simp add: returns_def try_except_def split: prod.splits sum.splits)

lemma returns_try_except_only:
  "returns Q m \<Longrightarrow> returns Q h \<Longrightarrow> returns Q (try_except_only es m h)"
  by (auto simp add: returns_def try_except_only_def split: prod.splits sum.splits if_splits)

lemma returns_if:
  "(c \<Longrightarrow> returns Q a) \<Longrightarrow> (\<not> c \<Longrightarrow> returns Q b) \<Longrightarrow> returns Q (if c then a else b)"
  by simp

lemma returns_scan_content: "capped m \<Longrightarrow> returns capped (scan_content pattern item m)"
  unfolding scan_content_def
  by (intro returns_try_except_only returns_bind returns_if returns_return)
     (simp_all add: capped_def)

lemma returns_search_item:
  "returns (\<lambda>r. case r of None \<Rightarrow> True | Some m \<Rightarrow> capped m)
     (search_item self pattern include_content item)"
  unfolding search_item_def Let_def
  apply (rule returns_bind)
  apply (rule returns_if)
   apply (rule returns_return, simp)
  apply (rule returns_if)
   apply (rule returns_return, simp)
  apply (rule returns_bind)
  apply (rule returns_bind2 [where Q' = capped])
   apply (intro returns_if returns_bind returns_scan_content returns_return)
     apply (simp_all add: capped_def)
  apply (rule returns_return, simp add: capped_def)
  done

lemma returns_search_loop:
  "list_all capped acc \<Longrightarrow>
   returns (list_all capped) (search_loop self pattern include_content found acc)"
proof (induction found arbitrary: acc)
  case Nil
  then show ?case by (simp add: returns_return)
next
  case (Cons item rest)
  show ?case
    unfolding search_loop.simps
  proof (rule returns_bind2 [OF returns_search_item])
    fix r :: "match_info option"
    assume "case r of None \<Rightarrow> True | Some m \<Rightarrow> capped m"
    then have "list_all capped (case r of None \<Rightarrow> acc | Some m \<Rightarrow> acc @ [m])"
      using Cons.prems by (cases r) simp_all
    then show "returns (list_all capped)
        (search_loop self pattern include_content rest (case r of None \<Rightarrow> acc | Some m \<Rightarrow> acc @ [m]))"
      by (rule Cons.IH)
  qed
qed

lemma returns_search_files:
  "returns (\<lambda>r. case r of Inl e \<Rightarrow> True | Inr sr \<Rightarrow> list_all capped (matches sr))
     (search_files self search_dir pattern include_content)"
  unfolding search_files_def Let_def
  apply (rule returns_try_except)
   apply (rule returns_bind)
   apply (rule returns_if)
    apply (rule returns_return, simp)
   apply (rule returns_bind)
   apply (rule returns_bind)
   apply (rule returns_if)
    apply (rule returns_return, simp)
   apply (rule returns_bind)
   apply (rule returns_bind2 [where Q' = "list_all capped"])
    apply (rule returns_search_loop, simp)
   apply (rule returns_return, simp)
  apply (rule returns_return, simp)
  done

lemma fs_lines_search:
  "search_files manager_sandbox ''/sandbox'' ''X'' True fs_lines =
     (Inr (Inr \<lparr> search_directory = ''/sandbox'', search_pattern = ''X'',
                  matches = [\<lparr> match_file = Inr \<lparr> info_name = ''x.txt'', info_path = ''/sandbox/x.txt'',
                                                    info_size = 23, info_is_file = True, info_is_dir = False,
                                                    info_extension = ''.txt'' \<rparr>,
                               match_type = content_match,
                               matching_lines = Some [(1, ''x''), (2, ''x''), (3, ''x''), (4, ''x''), (5, ''x''),
                                                      (6, ''x''), (7, ''x''), (8, ''x''), (9, ''x''), (10, ''x'')] \<rparr>],
                  total_matches = 1 \<rparr>),
      fs_lines \<lparr> io_log := [Stat (mkPath ''/sandbox''), Stat (mkPath ''/sandbox''), Rglob (mkPath ''/sandbox''),
                             Stat (mkPath ''/sandbox/x.txt''), Stat (mkPath ''/sandbox/x.txt''),
                             Stat (mkPath ''/sandbox/x.txt''), Stat (mkPath ''/sandbox/x.txt''),
                             Stat (mkPath ''/sandbox/x.txt''), ReadText (mkPath ''/sandbox/x.txt'')] \<rparr>)"
  by (simp add: search_files_def search_item_def scan_content_def find_matching_lines_def rglob_def
       fs_lines_def manager_sandbox_def run_defs policy_defs strip_def is_space_def)

lemma fs_lines_count:
  "length (find_matching_lines ''X''
      ''x\<newline>x\<newline>x\<newline>x\<newline>x\<newline>x\<newline>x\<newline>x\<newline>x\<newline>x\<newline>x\<newline>x'') = 12"
  by (simp add: find_matching_lines_def lower_def lower_char_def strip_def is_space_def)

lemma fs_lines_search2:
  "fst (search_files manager_sandbox ''/sandbox'' ''X'' True fs_lines) =
     Inr (Inr \<lparr> search_directory = ''/sandbox'', search_pattern = ''X'',
                 matches = [lines_match], total_matches = 1 \<rparr>)"
  by (simp add: fs_lines_search lines_match_def)

text \<open>A path that is not allowed: every operation answers at once, with no storage call.\<close>

lemma read_file_denied:
  "\<not> path_ok self s (mkPath file_path) \<Longrightarrow>
   read_file self file_path max_size s = (Inr (Inl AccessDenied), s)"
  by (simp add: read_file_def is_path_allowed_run try_except_def bind_def return_def Let_def)

lemma write_file_denied:
  "\<not> path_ok self s (mkPath file_path) \<Longrightarrow>
   write_file self file_path data create_dirs s = (Inr (Inl AccessDenied), s)"
  by (simp add: write_file_def is_path_allowed_run try_except_def bind_def return_def Let_def)

lemma list_directory_denied:
  "\<not> path_ok self s (mkPath dir_path) \<Longrightarrow>
   list_directory self dir_path include_hidden s = (Inr (Inl AccessDenied), s)"
  by (simp add: list_directory_def is_path_allowed_run try_except_def bind_def return_def Let_def)

lemma search_files_denied:
  "\<not> path_ok self s (mkPath search_dir) \<Longrightarrow>
   search_files self search_dir pattern include_content s = (Inr (Inl AccessDenied), s)"
  by (simp add: search_files_def is_path_allowed_run try_except_def bind_def return_def Let_def)

lemma get_file_hash_denied:
  "\<not> path_ok self s (mkPath file_path) \<Longrightarrow>
   get_file_hash lib self file_path s = (Inr (Inl AccessDenied), s)"
  by (simp add: get_file_hash_def is_path_allowed_run try_except_def bind_def return_def Let_def)

lemma handle_get_file_info_denied:
  "\<not> path_ok self s (mkPath file_path) \<Longrightarrow>
   handle_get_file_info self file_path s = (Inr (Inl AccessDenied), s)"
  by (simp add: handle_get_file_info_def is_path_allowed_run try_except_def bind_def return_def Let_def)

subsection \<open>Path containment\<close>

text \<open>
  C1 (boundary precision of the containment check). The claim wants \<open>/a/bc\<close> denied and
  \<open>/a/b/c\<close> allowed under the root \<open>/a/b\<close>. The program compares the resolved path
  with each root by \<open>startswith\<close> on the strings, so the sibling \<open>/a/bc\<close> is allowed as
  well: the manager built by \<open>__init__\<close> from the root \<open>/a/b\<close> answers \<open>True\<close>
  for both paths, and the metadata request on \<open>/a/bc\<close> is served.
\<close>

theorem C1_sibling_prefix_allowed:
  "init {} {''/a/b''} fs_ab = (Inr manager_ab, fs_ab)
   \<and> is_path_allowed manager_ab (mkPath ''/a/b/c'') fs_ab = (Inr True, fs_ab)
   \<and> is_path_allowed manager_ab (mkPath ''/a/bc'') fs_ab = (Inr True, fs_ab)
   \<and> fst (handle_get_file_info manager_ab ''/a/bc'' fs_ab) =
       Inr (Inr \<lparr> info_name = ''bc'', info_path = ''/a/bc'', info_size = 0,
                   info_is_file = False, info_is_dir = True, info_extension = [] \<rparr>)"
proof -
  have "init {} {''/a/b''} fs_ab = (Inr manager_ab, fs_ab)"
    by (simp add: init_def manager_ab_def fs_ab_def run_defs)
  moreover have "is_path_allowed manager_ab (mkPath ''/a/b/c'') fs_ab = (Inr True, fs_ab)"
    by (simp add: manager_ab_def fs_ab_def run_defs)
  moreover have "is_path_allowed manager_ab (mkPath ''/a/bc'') fs_ab = (Inr True, fs_ab)"
    by (simp add: manager_ab_def fs_ab_def run_defs)
  moreover have "fst (handle_get_file_info manager_ab ''/a/bc'' fs_ab) =
       Inr (Inr \<lparr> info_name = ''bc'', info_path = ''/a/bc'', info_size = 0,
                   info_is_file = False, info_is_dir = True, info_extension = [] \<rparr>)"
    by (simp add: handle_get_file_info_def manager_ab_def fs_ab_def run_defs)
  ultimately show ?thesis by blast
qed

text \<open>
  C2 (containment, no side effects on denial). The claim is about every path whose resolved
  form lies outside every allowed root. \<open>/a/bc/notes.txt\<close> lies outside the root
  \<open>/a/b\<close>, and the string test of \<open>_is_path_allowed\<close> lets it through:
  \<open>read_file\<close> reads the file and returns its content, and \<open>write_file\<close> creates
  \<open>/a/bc/new.txt\<close>. (When \<open>_is_path_allowed\<close> answers \<open>False\<close>, the six
  operations return the access-denied error with no storage call and the storage as it was:
  the lemmas \<open>read_file_denied\<close> to \<open>handle_get_file_info_denied\<close>.)
\<close>

theorem C2_sibling_directory_served:
  "fst (read_file manager_ab ''/a/bc/notes.txt'' None fs_ab) =
     Inr (Inr \<lparr> content = TextContent ''outside'', size = 7,
                 file_info = Inr \<lparr> info_name = ''notes.txt'', info_path = ''/a/bc/notes.txt'',
                                    info_size = 7, info_is_file = True, info_is_dir = False,
                                    info_extension = ''.txt'' \<rparr> \<rparr>)
   \<and> ReadText (mkPath ''/a/bc/notes.txt'') \<in> set (io_log (snd (read_file manager_ab ''/a/bc/notes.txt'' None fs_ab)))
   \<and> nodes (snd (write_file manager_ab ''/a/bc/new.txt'' ''data'' False fs_ab)) =
       nodes fs_ab @ [([''a'', ''bc'', ''new.txt''], File (Text ''data''))]"
proof -
  have "fst (read_file manager_ab ''/a/bc/notes.txt'' None fs_ab) =
     Inr (Inr \<lparr> content = TextContent ''outside'', size = 7,
                 file_info = Inr \<lparr> info_name = ''notes.txt'', info_path = ''/a/bc/notes.txt'',
                                    info_size = 7, info_is_file = True, info_is_dir = False,
                                    info_extension = ''.txt'' \<rparr> \<rparr>)"
    by (simp add: read_file_def read_content_def manager_ab_def fs_ab_def run_defs policy_defs)
  moreover have "ReadText (mkPath ''/a/bc/notes.txt'') \<in> set (io_log (snd (read_file manager_ab ''/a/bc/notes.txt'' None fs_ab)))"
    by (simp add: read_file_def read_content_def manager_ab_def fs_ab_def run_defs policy_defs)
  moreover have "nodes (snd (write_file manager_ab ''/a/bc/new.txt'' ''data'' False fs_ab)) =
       nodes fs_ab @ [([''a'', ''bc'', ''new.txt''], File (Text ''data''))]"
    by (simp add: write_file_def write_text_def manager_ab_def fs_ab_def run_defs policy_defs)
  ultimately show ?thesis by blast
qed

subsection \<open>The order of the checks\<close>

lemmas observe_defs = path_exists_def is_regular_def is_directory_def size_of_def

lemma stat_size_run:
  "faults s (Stat p) = None \<Longrightarrow> path_exists s p \<Longrightarrow>
   \<exists>n. node_at s p = Inr n \<and> st_size n = size_of s p \<and>
       stat p s = (Inr n, s\<lparr>io_log := io_log s @ [Stat p]\<rparr>)"
  by (auto simp add: stat_run path_exists_def size_of_def split: sum.splits)

lemma read_file_order:
  assumes "faults s = (\<lambda>a. None)"
    and "first_violation (read_preconditions self s file_path max_size) = Some e"
  shows "fst (read_file self file_path max_size s) = Inr (Inl e)"
proof -
  let ?p = "mkPath file_path"
  show ?thesis
  proof (cases "path_ok self s ?p")
    case False
    then show ?thesis
      using assms(2) by (simp add: read_file_denied read_preconditions_def Let_def is_path_allowed_fst)
  next
    case ok: True
    show ?thesis
    proof (cases "path_exists s ?p")
      case False
      then show ?thesis
        using assms ok
        by (simp add: read_preconditions_def Let_def is_path_allowed_fst read_file_def
            try_except_def bind_def return_def is_path_allowed_run exists_run)
    next
      case ex: True
      obtain n where n: "node_at s ?p = Inr n" "st_size n = size_of s ?p"
        "stat ?p (s\<lparr>io_log := io_log s @ [Stat ?p, Stat ?p]\<rparr>) =
           (Inr n, s\<lparr>io_log := io_log s @ [Stat ?p, Stat ?p, Stat ?p]\<rparr>)"
        using stat_size_run [of "s\<lparr>io_log := io_log s @ [Stat ?p, Stat ?p]\<rparr>" ?p] assms(1) ex
        by auto
      show ?thesis
        using assms ok ex n
        by (simp add: read_preconditions_def Let_def is_path_allowed_fst read_file_def
            try_except_def bind_def return_def is_path_allowed_run exists_run is_file_run
            split: if_splits)
    qed
  qed
qed


lemma write_file_order:
  assumes "faults s = (\<lambda>a. None)"
    and "first_violation (write_preconditions self s file_path data create_dirs) = Some e"
  shows "fst (write_file self file_path data create_dirs s) = Inr (Inl e)"
proof (cases "path_ok self s (mkPath file_path)")
  case False
  then show ?thesis
    using assms(2) by (simp add: write_file_denied write_preconditions_def Let_def is_path_allowed_fst)
next
  case True
  then show ?thesis
    using assms
    by (simp add: write_preconditions_def Let_def is_path_allowed_fst write_file_def
        try_except_def bind_def return_def is_path_allowed_run exists_run
        split: if_splits)
qed

lemma list_directory_order:
  assumes "faults s = (\<lambda>a. None)"
    and "first_violation (list_preconditions self s dir_path) = Some e"
  shows "fst (list_directory self dir_path include_hidden s) = Inr (Inl e)"
proof (cases "path_ok self s (mkPath dir_path)")
  case False
  then show ?thesis
    using assms(2) by (simp add: list_directory_denied list_preconditions_def Let_def is_path_allowed_fst)
next
  case True
  then show ?thesis
    using assms
    by (simp add: list_preconditions_def Let_def is_path_allowed_fst list_directory_def
        try_except_def bind_def return_def is_path_allowed_run exists_run is_dir_run
        split: if_splits)
qed

lemma search_files_order:
  assumes "faults s = (\<lambda>a. None)"
    and "first_violation (search_preconditions self s search_dir) = Some e"
  shows "fst (search_files self search_dir pattern include_content s) = Inr (Inl e)"
proof (cases "path_ok self s (mkPath search_dir)")
  case False
  then show ?thesis
    using assms(2) by (simp add: search_files_denied search_preconditions_def Let_def is_path_allowed_fst)
next
  case True
  then show ?thesis
    using assms
    by (simp add: search_preconditions_def Let_def is_path_allowed_fst search_files_def
        try_except_def bind_def return_def is_path_allowed_run exists_run is_dir_run
        split: if_splits)
qed

lemma handle_get_file_info_order:
  assumes "faults s = (\<lambda>a. None)"
    and "first_violation (info_preconditions self s file_path) = Some e"
  shows "fst (handle_get_file_info self file_path s) = Inr (Inl e)"
proof (cases "path_ok self s (mkPath file_path)")
  case False
  then show ?thesis
    using assms(2) by (simp add: handle_get_file_info_denied info_preconditions_def Let_def is_path_allowed_fst)
next
  case True
  then show ?thesis
    using assms
    by (simp add: info_preconditions_def Let_def is_path_allowed_fst handle_get_file_info_def
        try_except_def bind_def return_def is_path_allowed_run exists_run
        split: if_splits)
qed

lemma get_file_hash_order:
  assumes "faults s = (\<lambda>a. None)"
    and "first_violation (hash_preconditions self s file_path) = Some e"
  shows "fst (get_file_hash lib self file_path s) = Inr (Inl e)"
proof -
  let ?p = "mkPath file_path"
  show ?thesis
  proof (cases "path_ok self s ?p")
    case False
    then show ?thesis
      using assms(2) by (simp add: get_file_hash_denied hash_preconditions_def Let_def is_path_allowed_fst)
  next
    case ok: True
    show ?thesis
    proof (cases "path_exists s ?p")
      case False
      then show ?thesis
        using assms ok
        by (simp add: hash_preconditions_def Let_def is_path_allowed_fst get_file_hash_def
            try_except_def bind_def return_def is_path_allowed_run exists_run)
    next
      case ex: True
      obtain n where n: "node_at s ?p = Inr n" "st_size n = size_of s ?p"
        "stat ?p (s\<lparr>io_log := io_log s @ [Stat ?p, Stat ?p]\<rparr>) =
           (Inr n, s\<lparr>io_log := io_log s @ [Stat ?p, Stat ?p, Stat ?p]\<rparr>)"
        using stat_size_run [of "s\<lparr>io_log := io_log s @ [Stat ?p, Stat ?p]\<rparr>" ?p] assms(1) ex
        by auto
      show ?thesis
        using assms ok ex n
        by (simp add: hash_preconditions_def Let_def is_path_allowed_fst get_file_hash_def
            try_except_def bind_def return_def is_path_allowed_run exists_run is_file_run
            split: if_splits)
    qed
  qed
qed

text \<open>
  C5 (precondition order and non-leakage), as stated: policy checks come before existence
  and type checks, which come before size checks, and a path that the policy denies gets
  the same answer whether or not it exists. \<open>read_file\<close> checks the extension policy
  after existence and file type: of two paths with the denied extension \<open>.exe\<close>, the
  existing one is answered "file type not allowed" and the missing one "file not found".
  \<open>write_file\<close> checks the content size before the existence of the parent directory.
\<close>

theorem C5_counterexample:
  "\<not> is_extension_allowed (mkPath ''/sandbox/tool.exe'')
   \<and> \<not> is_extension_allowed (mkPath ''/sandbox/gone.exe'')
   \<and> fst (read_file manager_sandbox ''/sandbox/tool.exe'' None fs_tool) =
       Inr (Inl (FileTypeNotAllowed ''.exe''))
   \<and> fst (read_file manager_sandbox ''/sandbox/gone.exe'' None fs_tool) =
       Inr (Inl (FileNotFound ''/sandbox/gone.exe''))
   \<and> fst (write_file manager_sandbox ''/sandbox/nodir/new.txt'' (big_text 10485761) False fs_tool) =
       Inr (Inl ContentTooLarge)
   \<and> fst (write_file manager_sandbox ''/sandbox/nodir/new.txt'' ''data'' False fs_tool) =
       Inr (Inl (ParentMissing ''/sandbox/nodir''))"
proof -
  have "\<not> is_extension_allowed (mkPath ''/sandbox/tool.exe'')"
    "\<not> is_extension_allowed (mkPath ''/sandbox/gone.exe'')"
    by (simp_all add: run_defs policy_defs)
  moreover have "fst (read_file manager_sandbox ''/sandbox/tool.exe'' None fs_tool) =
       Inr (Inl (FileTypeNotAllowed ''.exe''))"
    by (simp add: read_file_def manager_sandbox_def fs_tool_def run_defs policy_defs)
  moreover have "fst (read_file manager_sandbox ''/sandbox/gone.exe'' None fs_tool) =
       Inr (Inl (FileNotFound ''/sandbox/gone.exe''))"
    by (simp add: read_file_def manager_sandbox_def fs_tool_def run_defs policy_defs)
  moreover have "fst (write_file manager_sandbox ''/sandbox/nodir/new.txt'' (big_text 10485761) False fs_tool) =
       Inr (Inl ContentTooLarge)"
    by (simp add: write_file_def manager_sandbox_def fs_tool_def run_defs policy_defs)
  moreover have "fst (write_file manager_sandbox ''/sandbox/nodir/new.txt'' ''data'' False fs_tool) =
       Inr (Inl (ParentMissing ''/sandbox/nodir''))"
    by (simp add: write_file_def manager_sandbox_def fs_tool_def run_defs policy_defs)
  ultimately show ?thesis by blast
qed

text \<open>
  C5, amended. On fault-free storage every operation fails with the error of the first
  violated precondition in the order listed for it: the path check always comes first;
  \<open>read_file\<close> then checks existence, file type, extension and size;
  \<open>write_file\<close> extension, content size and parent directory; the others existence and
  type, and \<open>get_file_hash\<close> the size last. A path that \<open>_is_path_allowed\<close> rejects
  is answered by the same access-denied error by all six operations, with no storage call,
  whatever the storage holds at that path.
\<close>

theorem C5_listed_order:
  "(faults s = (\<lambda>a. None) \<longrightarrow>
      (first_violation (read_preconditions self s file_path max_size) = Some e \<longrightarrow>
         fst (read_file self file_path max_size s) = Inr (Inl e))
    \<and> (first_violation (write_preconditions self s file_path data create_dirs) = Some e \<longrightarrow>
         fst (write_file self file_path data create_dirs s) = Inr (Inl e))
    \<and> (first_violation (list_preconditions self s file_path) = Some e \<longrightarrow>
         fst (list_directory self file_path include_hidden s) = Inr (Inl e))
    \<and> (first_violation (search_preconditions self s file_path) = Some e \<longrightarrow>
         fst (search_files self file_path pattern include_content s) = Inr (Inl e))
    \<and> (first_violation (info_preconditions self s file_path) = Some e \<longrightarrow>
         fst (handle_get_file_info self file_path s) = Inr (Inl e))
    \<and> (first_violation (hash_preconditions self s file_path) = Some e \<longrightarrow>
         fst (get_file_hash lib self file_path s) = Inr (Inl e)))
   \<and> (fst (is_path_allowed self (mkPath file_path) s) = Inr False \<longrightarrow>
         read_file self file_path max_size s = (Inr (Inl AccessDenied), s)
       \<and> write_file self file_path data create_dirs s = (Inr (Inl AccessDenied), s)
       \<and> list_directory self file_path include_hidden s = (Inr (Inl AccessDenied), s)
       \<and> search_files self file_path pattern include_content s = (Inr (Inl AccessDenied), s)
       \<and> handle_get_file_info self file_path s = (Inr (Inl AccessDenied), s)
       \<and> get_file_hash lib self file_path s = (Inr (Inl AccessDenied), s))"
proof -
  have denied: "\<not> path_ok self s (mkPath file_path)"
    if "fst (is_path_allowed self (mkPath file_path) s) = Inr False"
    using that by (simp add: is_path_allowed_fst)
  have order: "(first_violation (read_preconditions self s file_path max_size) = Some e \<longrightarrow>
         fst (read_file self file_path max_size s) = Inr (Inl e))
    \<and> (first_violation (write_preconditions self s file_path data create_dirs) = Some e \<longrightarrow>
         fst (write_file self file_path data create_dirs s) = Inr (Inl e))
    \<and> (first_violation (list_preconditions self s file_path) = Some e \<longrightarrow>
         fst (list_directory self file_path include_hidden s) = Inr (Inl e))
    \<and> (first_violation (search_preconditions self s file_path) = Some e \<longrightarrow>
         fst (search_files self file_path pattern include_content s) = Inr (Inl e))
    \<and> (first_violation (info_preconditions self s file_path) = Some e \<longrightarrow>
         fst (handle_get_file_info self file_path s) = Inr (Inl e))
    \<and> (first_violation (hash_preconditions self s file_path) = Some e \<longrightarrow>
         fst (get_file_hash lib self file_path s) = Inr (Inl e))"
    if free: "faults s = (\<lambda>a. None)"
    using read_file_order [OF free] write_file_order [OF free] list_directory_order [OF free]
      search_files_order [OF free] handle_get_file_info_order [OF free]
      get_file_hash_order [OF free]
    by simp
  have out: "read_file self file_path max_size s = (Inr (Inl AccessDenied), s)
       \<and> write_file self file_path data create_dirs s = (Inr (Inl AccessDenied), s)
       \<and> list_directory self file_path include_hidden s = (Inr (Inl AccessDenied), s)
       \<and> search_files self file_path pattern include_content s = (Inr (Inl AccessDenied), s)
       \<and> handle_get_file_info self file_path s = (Inr (Inl AccessDenied), s)
       \<and> get_file_hash lib self file_path s = (Inr (Inl AccessDenied), s)"
    if no: "fst (is_path_allowed self (mkPath file_path) s) = Inr False"
    using read_file_denied [OF denied [OF no]] write_file_denied [OF denied [OF no]]
      list_directory_denied [OF denied [OF no]] search_files_denied [OF denied [OF no]]
      handle_get_file_info_denied [OF denied [OF no]] get_file_hash_denied [OF denied [OF no]]
    by simp
  show ?thesis
    using order out by (intro conjI impI) simp_all
qed


theorem C5_listed_order_witness:
  "\<forall>lib. faults fs_tool = (\<lambda>a. None)
   \<and> first_violation (read_preconditions manager_sandbox fs_tool ''/sandbox/nodir/gone.txt'' None) =
       Some (FileNotFound ''/sandbox/nodir/gone.txt'')
   \<and> fst (read_file manager_sandbox ''/sandbox/nodir/gone.txt'' None fs_tool) =
       Inr (Inl (FileNotFound ''/sandbox/nodir/gone.txt''))
   \<and> first_violation (write_preconditions manager_sandbox fs_tool ''/sandbox/nodir/gone.txt'' ''data'' False) =
       Some (ParentMissing ''/sandbox/nodir'')
   \<and> fst (write_file manager_sandbox ''/sandbox/nodir/gone.txt'' ''data'' False fs_tool) =
       Inr (Inl (ParentMissing ''/sandbox/nodir''))
   \<and> first_violation (list_preconditions manager_sandbox fs_tool ''/sandbox/nodir/gone.txt'') =
       Some (DirectoryNotFound ''/sandbox/nodir/gone.txt'')
   \<and> fst (list_directory manager_sandbox ''/sandbox/nodir/gone.txt'' False fs_tool) =
       Inr (Inl (DirectoryNotFound ''/sandbox/nodir/gone.txt''))
   \<and> first_violation (search_preconditions manager_sandbox fs_tool ''/sandbox/nodir/gone.txt'') =
       Some (InvalidSearchDirectory ''/sandbox/nodir/gone.txt'')
   \<and> fst (search_files manager_sandbox ''/sandbox/nodir/gone.txt'' ''x'' True fs_tool) =
       Inr (Inl (InvalidSearchDirectory ''/sandbox/nodir/gone.txt''))
   \<and> first_violation (info_preconditions manager_sandbox fs_tool ''/sandbox/nodir/gone.txt'') =
       Some (FileNotFound ''/sandbox/nodir/gone.txt'')
   \<and> fst (handle_get_file_info manager_sandbox ''/sandbox/nodir/gone.txt'' fs_tool) =
       Inr (Inl (FileNotFound ''/sandbox/nodir/gone.txt''))
   \<and> first_violation (hash_preconditions manager_sandbox fs_tool ''/sandbox/nodir/gone.txt'') =
       Some (FileNotFound ''/sandbox/nodir/gone.txt'')
   \<and> fst (get_file_hash lib manager_sandbox ''/sandbox/nodir/gone.txt'' fs_tool) =
       Inr (Inl (FileNotFound ''/sandbox/nodir/gone.txt''))
   \<and> fst (is_path_allowed manager_sandbox (mkPath ''/etc/passwd'') fs_tool) = Inr False
   \<and> read_file manager_sandbox ''/etc/passwd'' None fs_tool = (Inr (Inl AccessDenied), fs_tool)
   \<and> write_file manager_sandbox ''/etc/passwd'' ''data'' False fs_tool = (Inr (Inl AccessDenied), fs_tool)
   \<and> list_directory manager_sandbox ''/etc/passwd'' False fs_tool = (Inr (Inl AccessDenied), fs_tool)
   \<and> search_files manager_sandbox ''/etc/passwd'' ''x'' True fs_tool = (Inr (Inl AccessDenied), fs_tool)
   \<and> handle_get_file_info manager_sandbox ''/etc/passwd'' fs_tool = (Inr (Inl AccessDenied), fs_tool)
   \<and> get_file_hash lib manager_sandbox ''/etc/passwd'' fs_tool = (Inr (Inl AccessDenied), fs_tool)"
proof -
  have free: "faults fs_tool = (\<lambda>a. None)"
    by (simp add: fs_tool_def)
  have viol:
    "first_violation (read_preconditions manager_sandbox fs_tool ''/sandbox/nodir/gone.txt'' None) =
       Some (FileNotFound ''/sandbox/nodir/gone.txt'')"
    "first_violation (write_preconditions manager_sandbox fs_tool ''/sandbox/nodir/gone.txt'' ''data'' False) =
       Some (ParentMissing ''/sandbox/nodir'')"
    "first_violation (list_preconditions manager_sandbox fs_tool ''/sandbox/nodir/gone.txt'') =
       Some (DirectoryNotFound ''/sandbox/nodir/gone.txt'')"
    "first_violation (search_preconditions manager_sandbox fs_tool ''/sandbox/nodir/gone.txt'') =
       Some (InvalidSearchDirectory ''/sandbox/nodir/gone.txt'')"
    "first_violation (info_preconditions manager_sandbox fs_tool ''/sandbox/nodir/gone.txt'') =
       Some (FileNotFound ''/sandbox/nodir/gone.txt'')"
    "first_violation (hash_preconditions manager_sandbox fs_tool ''/sandbox/nodir/gone.txt'') =
       Some (FileNotFound ''/sandbox/nodir/gone.txt'')"
    by (simp_all add: read_preconditions_def write_preconditions_def list_preconditions_def
        search_preconditions_def info_preconditions_def hash_preconditions_def
        manager_sandbox_def fs_tool_def observe_defs run_defs policy_defs)
  have out: "fst (is_path_allowed manager_sandbox (mkPath ''/etc/passwd'') fs_tool) = Inr False"
    by (simp add: manager_sandbox_def fs_tool_def run_defs)
  show ?thesis
  proof
    fix lib
    show "faults fs_tool = (\<lambda>a. None)
       \<and> first_violation (read_preconditions manager_sandbox fs_tool ''/sandbox/nodir/gone.txt'' None) =
           Some (FileNotFound ''/sandbox/nodir/gone.txt'')
       \<and> fst (read_file manager_sandbox ''/sandbox/nodir/gone.txt'' None fs_tool) =
           Inr (Inl (FileNotFound ''/sandbox/nodir/gone.txt''))
       \<and> first_violation (write_preconditions manager_sandbox fs_tool ''/sandbox/nodir/gone.txt'' ''data'' False) =
           Some (ParentMissing ''/sandbox/nodir'')
       \<and> fst (write_file manager_sandbox ''/sandbox/nodir/gone.txt'' ''data'' False fs_tool) =
           Inr (Inl (ParentMissing ''/sandbox/nodir''))
       \<and> first_violation (list_preconditions manager_sandbox fs_tool ''/sandbox/nodir/gone.txt'') =
           Some (DirectoryNotFound ''/sandbox/nodir/gone.txt'')
       \<and> fst (list_directory manager_sandbox ''/sandbox/nodir/gone.txt'' False fs_tool) =
           Inr (Inl (DirectoryNotFound ''/sandbox/nodir/gone.txt''))
       \<and> first_violation (search_preconditions manager_sandbox fs_tool ''/sandbox/nodir/gone.txt'') =
           Some (InvalidSearchDirectory ''/sandbox/nodir/gone.txt'')
       \<and> fst (search_files manager_sandbox ''/sandbox/nodir/gone.txt'' ''x'' True fs_tool) =
           Inr (Inl (InvalidSearchDirectory ''/sandbox/nodir/gone.txt''))
       \<and> first_violation (info_preconditions manager_sandbox fs_tool ''/sandbox/nodir/gone.txt'') =
           Some (FileNotFound ''/sandbox/nodir/gone.txt'')
       \<and> fst (handle_get_file_info manager_sandbox ''/sandbox/nodir/gone.txt'' fs_tool) =
           Inr (Inl (FileNotFound ''/sandbox/nodir/gone.txt''))
       \<and> first_violation (hash_preconditions manager_sandbox fs_tool ''/sandbox/nodir/gone.txt'') =
           Some (FileNotFound ''/sandbox/nodir/gone.txt'')
       \<and> fst (get_file_hash lib manager_sandbox ''/sandbox/nodir/gone.txt'' fs_tool) =
           Inr (Inl (FileNotFound ''/sandbox/nodir/gone.txt''))
       \<and> fst (is_path_allowed manager_sandbox (mkPath ''/etc/passwd'') fs_tool) = Inr False
       \<and> read_file manager_sandbox ''/etc/passwd'' None fs_tool = (Inr (Inl AccessDenied), fs_tool)
       \<and> write_file manager_sandbox ''/etc/passwd'' ''data'' False fs_tool = (Inr (Inl AccessDenied), fs_tool)
       \<and> list_directory manager_sandbox ''/etc/passwd'' False fs_tool = (Inr (Inl AccessDenied), fs_tool)
       \<and> search_files manager_sandbox ''/etc/passwd'' ''x'' True fs_tool = (Inr (Inl AccessDenied), fs_tool)
       \<and> handle_get_file_info manager_sandbox ''/etc/passwd'' fs_tool = (Inr (Inl AccessDenied), fs_tool)
       \<and> get_file_hash lib manager_sandbox ''/etc/passwd'' fs_tool = (Inr (Inl AccessDenied), fs_tool)"
    using C5_listed_order [of fs_tool manager_sandbox "''/sandbox/nodir/gone.txt''" None
        "FileNotFound ''/sandbox/nodir/gone.txt''" "''data''" False False "''x''" True lib]
      C5_listed_order [of fs_tool manager_sandbox "''/sandbox/nodir/gone.txt''" None
        "ParentMissing ''/sandbox/nodir''" "''data''" False False "''x''" True lib]
      C5_listed_order [of fs_tool manager_sandbox "''/sandbox/nodir/gone.txt''" None
        "DirectoryNotFound ''/sandbox/nodir/gone.txt''" "''data''" False False "''x''" True lib]
      C5_listed_order [of fs_tool manager_sandbox "''/sandbox/nodir/gone.txt''" None
        "InvalidSearchDirectory ''/sandbox/nodir/gone.txt''" "''data''" False False "''x''" True lib]
      C5_listed_order [of fs_tool manager_sandbox "''/etc/passwd''" None
        AccessDenied "''data''" False False "''x''" True lib]
      free viol out
    by simp
  qed
qed


subsection \<open>Size limits\<close>

text \<open>
  C4 (hard ceiling on the per-call size override). With an override larger than
  \<open>MAX_FILE_SIZE\<close>, a file bigger than \<open>MAX_FILE_SIZE\<close> should still be rejected.
  \<open>read_file\<close> takes \<open>max_size or MAX_FILE_SIZE\<close> as the limit and never compares
  the override with \<open>MAX_FILE_SIZE\<close>: the file of 10485761 bytes is read under the
  override 10485762. The same file is rejected when no override is given, and
  \<open>write_file\<close> refuses content of that size, as the "10MB limit" of the security
  configuration says.
\<close>

theorem C4_override_exceeds_ceiling:
  "MAX_FILE_SIZE = 10485760
   \<and> fst (read_file manager_sandbox ''/sandbox/over.txt'' (Some 10485762) fs_big) =
       Inr (Inr \<lparr> content = TextContent (big_text 10485761), size = 10485761,
                   file_info = Inr \<lparr> info_name = ''over.txt'', info_path = ''/sandbox/over.txt'',
                                      info_size = 10485761, info_is_file = True, info_is_dir = False,
                                      info_extension = ''.txt'' \<rparr> \<rparr>)
   \<and> fst (read_file manager_sandbox ''/sandbox/over.txt'' None fs_big) =
       Inr (Inl (FileTooLarge 10485761 10485760))
   \<and> fst (write_file manager_sandbox ''/sandbox/copy.txt'' (big_text 10485761) False fs_big) =
       Inr (Inl ContentTooLarge)"
proof -
  have "name (mkPath ''/sandbox/over.txt'') = ''over.txt''"
    "str (mkPath ''/sandbox/over.txt'') = ''/sandbox/over.txt''"
    "lower (suffix (mkPath ''/sandbox/over.txt'')) = ''.txt''"
    by (simp_all add: run_defs)
  then have "fst (read_file manager_sandbox ''/sandbox/over.txt'' (Some 10485762) fs_big) =
       Inr (Inr \<lparr> content = TextContent (big_text 10485761), size = 10485761,
                   file_info = Inr \<lparr> info_name = ''over.txt'', info_path = ''/sandbox/over.txt'',
                                      info_size = 10485761, info_is_file = True, info_is_dir = False,
                                      info_extension = ''.txt'' \<rparr> \<rparr>)"
    using read_file_regular [OF fs_big_facts(1) fs_big_facts(3) fs_big_facts(5), of "Some 10485762"]
    by (simp add: fs_big_facts size_limit_def MAX_FILE_SIZE_def)
  moreover have "fst (read_file manager_sandbox ''/sandbox/over.txt'' None fs_big) =
       Inr (Inl (FileTooLarge 10485761 10485760))"
    using read_file_regular [OF fs_big_facts(1) fs_big_facts(3) fs_big_facts(5), of None]
    by (simp add: fs_big_facts size_limit_def MAX_FILE_SIZE_def)
  moreover have "fst (write_file manager_sandbox ''/sandbox/copy.txt'' (big_text 10485761) False fs_big) =
       Inr (Inl ContentTooLarge)"
    by (simp add: write_file_def manager_sandbox_def fs_big_def run_defs policy_defs)
  moreover have "MAX_FILE_SIZE = 10485760"
    by (simp add: MAX_FILE_SIZE_def)
  ultimately show ?thesis by blast
qed

text \<open>
  C7 (size-limit boundary). The limit in force is \<open>MAX_FILE_SIZE\<close> when no override is
  given, and the override \<open>m\<close> when \<open>0 < m \<le> MAX_FILE_SIZE\<close>. On fault-free storage,
  for a regular file inside an allowed directory: \<open>read_file\<close> (the extension being
  allowed) returns the content when the size equals that limit and the too-large error when
  the size is the limit plus one; \<open>get_file_hash\<close> returns the digests when the size
  equals \<open>MAX_FILE_SIZE\<close> and the too-large error when it is \<open>MAX_FILE_SIZE + 1\<close>.
\<close>

theorem C7_size_limit_boundary:
  assumes "faults s = (\<lambda>a. None)"
    and "fst (is_path_allowed self (mkPath file_path) s) = Inr True"
    and "node_at s (mkPath file_path) = Inr (File c)"
  shows "(is_extension_allowed (mkPath file_path) \<and> length (raw_bytes c) = MAX_FILE_SIZE \<longrightarrow>
            (\<exists>r. fst (read_file self file_path None s) = Inr (Inr r)
                  \<and> content r = shown c \<and> size r = MAX_FILE_SIZE))
     \<and> (is_extension_allowed (mkPath file_path) \<and> length (raw_bytes c) = MAX_FILE_SIZE + 1 \<longrightarrow>
            fst (read_file self file_path None s) =
              Inr (Inl (FileTooLarge (MAX_FILE_SIZE + 1) (int MAX_FILE_SIZE))))
     \<and> (is_extension_allowed (mkPath file_path) \<and> 0 < m \<and> m \<le> int MAX_FILE_SIZE
          \<and> int (length (raw_bytes c)) = m \<longrightarrow>
            (\<exists>r. fst (read_file self file_path (Some m) s) = Inr (Inr r)
                  \<and> content r = shown c \<and> int (size r) = m))
     \<and> (is_extension_allowed (mkPath file_path) \<and> 0 < m \<and> m \<le> int MAX_FILE_SIZE
          \<and> int (length (raw_bytes c)) = m + 1 \<longrightarrow>
            fst (read_file self file_path (Some m) s) =
              Inr (Inl (FileTooLarge (length (raw_bytes c)) m)))
     \<and> (length (raw_bytes c) = MAX_FILE_SIZE \<longrightarrow>
            (\<exists>r. fst (get_file_hash lib self file_path s) = Inr (Inr r)
                  \<and> hashed_size r = MAX_FILE_SIZE
                  \<and> sha256_digest r = sha256 lib (raw_bytes c)))
     \<and> (length (raw_bytes c) = MAX_FILE_SIZE + 1 \<longrightarrow>
            fst (get_file_hash lib self file_path s) = Inr (Inl TooLargeForHashing))"
  using read_file_regular [OF assms, of None] read_file_regular [OF assms, of "Some m"]
    get_file_hash_regular [OF assms, of lib]
  by (auto simp add: size_limit_def)

theorem C7_size_limit_boundary_witness:
  "\<forall>lib. faults fs_big = (\<lambda>a. None) \<and> faults fs_sandbox = (\<lambda>a. None)
   \<and> fst (is_path_allowed manager_sandbox (mkPath ''/sandbox/limit.txt'') fs_big) = Inr True
   \<and> fst (is_path_allowed manager_sandbox (mkPath ''/sandbox/over.txt'') fs_big) = Inr True
   \<and> fst (is_path_allowed manager_sandbox (mkPath ''/sandbox/notes.txt'') fs_sandbox) = Inr True
   \<and> node_at fs_big (mkPath ''/sandbox/limit.txt'') = Inr (File (Text (big_text 10485760)))
   \<and> node_at fs_big (mkPath ''/sandbox/over.txt'') = Inr (File (Text (big_text 10485761)))
   \<and> node_at fs_sandbox (mkPath ''/sandbox/notes.txt'') = Inr (File (Text ''hello world''))
   \<and> is_extension_allowed (mkPath ''/sandbox/limit.txt'')
   \<and> is_extension_allowed (mkPath ''/sandbox/over.txt'')
   \<and> is_extension_allowed (mkPath ''/sandbox/notes.txt'')
   \<and> MAX_FILE_SIZE = 10485760
   \<and> length ''hello world'' = 11
   \<and> (\<exists>r. fst (read_file manager_sandbox ''/sandbox/limit.txt'' None fs_big) = Inr (Inr r)
           \<and> content r = TextContent (big_text 10485760) \<and> size r = 10485760)
   \<and> fst (read_file manager_sandbox ''/sandbox/over.txt'' None fs_big) =
        Inr (Inl (FileTooLarge 10485761 10485760))
   \<and> (\<exists>r. fst (read_file manager_sandbox ''/sandbox/notes.txt'' (Some 11) fs_sandbox) = Inr (Inr r)
           \<and> content r = TextContent ''hello world'' \<and> size r = 11)
   \<and> fst (read_file manager_sandbox ''/sandbox/notes.txt'' (Some 10) fs_sandbox) =
        Inr (Inl (FileTooLarge 11 10))
   \<and> (\<exists>r. fst (get_file_hash lib manager_sandbox ''/sandbox/limit.txt'' fs_big) = Inr (Inr r)
           \<and> hashed_size r = 10485760 \<and> sha256_digest r = sha256 lib (big_text 10485760))
   \<and> fst (get_file_hash lib manager_sandbox ''/sandbox/over.txt'' fs_big) = Inr (Inl TooLargeForHashing)"
proof
  fix lib
  show "faults fs_big = (\<lambda>a. None) \<and> faults fs_sandbox = (\<lambda>a. None)
   \<and> fst (is_path_allowed manager_sandbox (mkPath ''/sandbox/limit.txt'') fs_big) = Inr True
   \<and> fst (is_path_allowed manager_sandbox (mkPath ''/sandbox/over.txt'') fs_big) = Inr True
   \<and> fst (is_path_allowed manager_sandbox (mkPath ''/sandbox/notes.txt'') fs_sandbox) = Inr True
   \<and> node_at fs_big (mkPath ''/sandbox/limit.txt'') = Inr (File (Text (big_text 10485760)))
   \<and> node_at fs_big (mkPath ''/sandbox/over.txt'') = Inr (File (Text (big_text 10485761)))
   \<and> node_at fs_sandbox (mkPath ''/sandbox/notes.txt'') = Inr (File (Text ''hello world''))
   \<and> is_extension_allowed (mkPath ''/sandbox/limit.txt'')
   \<and> is_extension_allowed (mkPath ''/sandbox/over.txt'')
   \<and> is_extension_allowed (mkPath ''/sandbox/notes.txt'')
   \<and> MAX_FILE_SIZE = 10485760
   \<and> length ''hello world'' = 11
   \<and> (\<exists>r. fst (read_file manager_sandbox ''/sandbox/limit.txt'' None fs_big) = Inr (Inr r)
           \<and> content r = TextContent (big_text 10485760) \<and> size r = 10485760)
   \<and> fst (read_file manager_sandbox ''/sandbox/over.txt'' None fs_big) =
        Inr (Inl (FileTooLarge 10485761 10485760))
   \<and> (\<exists>r. fst (read_file manager_sandbox ''/sandbox/notes.txt'' (Some 11) fs_sandbox) = Inr (Inr r)
           \<and> content r = TextContent ''hello world'' \<and> size r = 11)
   \<and> fst (read_file manager_sandbox ''/sandbox/notes.txt'' (Some 10) fs_sandbox) =
        Inr (Inl (FileTooLarge 11 10))
   \<and> (\<exists>r. fst (get_file_hash lib manager_sandbox ''/sandbox/limit.txt'' fs_big) = Inr (Inr r)
           \<and> hashed_size r = 10485760 \<and> sha256_digest r = sha256 lib (big_text 10485760))
   \<and> fst (get_file_hash lib manager_sandbox ''/sandbox/over.txt'' fs_big) = Inr (Inl TooLargeForHashing)"
    using C7_size_limit_boundary [OF fs_big_facts(1) fs_big_facts(2) fs_big_facts(4), of 1 lib]
      C7_size_limit_boundary [OF fs_big_facts(1) fs_big_facts(3) fs_big_facts(5), of 1 lib]
      C7_size_limit_boundary [OF fs_sandbox_facts(1) fs_sandbox_facts(2) fs_sandbox_facts(3), of 11 lib]
      C7_size_limit_boundary [OF fs_sandbox_facts(1) fs_sandbox_facts(2) fs_sandbox_facts(3), of 10 lib]
    by (auto simp add: fs_big_facts fs_sandbox_facts MAX_FILE_SIZE_def)
qed


subsection \<open>Extension policy\<close>

text \<open>
  C6 (extension precedence). For any deny list and allow list in the places of the two
  module constants: a path whose lower-cased suffix is in the deny list is denied, also when
  the allow list contains it; any other path is allowed exactly when the allow list is empty
  or contains the suffix. \<open>_is_extension_allowed\<close> is this check with
  \<open>DANGEROUS_EXTENSIONS\<close> and \<open>ALLOWED_EXTENSIONS\<close>.
\<close>

theorem C6_extension_precedence:
  "(lower (suffix p) \<in> dangerous \<longrightarrow> \<not> extension_allowed_in dangerous allowed p)
   \<and> (lower (suffix p) \<notin> dangerous \<longrightarrow>
        extension_allowed_in dangerous allowed p = (allowed = {} \<or> lower (suffix p) \<in> allowed))
   \<and> is_extension_allowed p = extension_allowed_in DANGEROUS_EXTENSIONS ALLOWED_EXTENSIONS p"
  by (auto simp add: extension_allowed_in_def is_extension_allowed_def Let_def)

theorem C6_extension_precedence_witness:
  "lower (suffix (mkPath ''/srv/Tool.EXE'')) \<in> {''.exe'', ''.sh''}
   \<and> lower (suffix (mkPath ''/srv/Tool.EXE'')) \<in> {''.exe'', ''.txt''}
   \<and> \<not> extension_allowed_in {''.exe'', ''.sh''} {''.exe'', ''.txt''} (mkPath ''/srv/Tool.EXE'')
   \<and> lower (suffix (mkPath ''/srv/notes.txt'')) \<notin> {''.exe'', ''.sh''}
   \<and> extension_allowed_in {''.exe'', ''.sh''} {''.exe'', ''.txt''} (mkPath ''/srv/notes.txt'')
   \<and> extension_allowed_in {''.exe'', ''.sh''} {} (mkPath ''/srv/notes.txt'')
   \<and> \<not> extension_allowed_in {''.exe'', ''.sh''} {''.exe'', ''.md''} (mkPath ''/srv/notes.txt'')"
proof -
  have low_exe: "lower (suffix (mkPath ''/srv/Tool.EXE'')) = ''.exe''"
    by (simp add: run_defs)
  have low_txt: "lower (suffix (mkPath ''/srv/notes.txt'')) = ''.txt''"
    by (simp add: run_defs)
  show ?thesis
    using C6_extension_precedence [of "mkPath ''/srv/Tool.EXE''" "{''.exe'', ''.sh''}" "{''.exe'', ''.txt''}"]
      C6_extension_precedence [of "mkPath ''/srv/notes.txt''" "{''.exe'', ''.sh''}" "{''.exe'', ''.txt''}"]
      C6_extension_precedence [of "mkPath ''/srv/notes.txt''" "{''.exe'', ''.sh''}" "{}"]
      C6_extension_precedence [of "mkPath ''/srv/notes.txt''" "{''.exe'', ''.sh''}" "{''.exe'', ''.md''}"]
    by (simp add: low_exe low_txt)
qed

subsection \<open>Totality\<close>

text \<open>
  C8 (totality at the operation boundary). Whatever the arguments and the storage, faults
  and symbolic link loops included, each of the six operations returns a result, a payload
  or an error dictionary, and raises nothing; \<open>_is_path_allowed\<close> returns a truth value
  and leaves the storage as it was.
\<close>

theorem C8_operations_total:
  "(\<exists>r s'. read_file self file_path max_size s = (Inr r, s'))
   \<and> (\<exists>r s'. write_file self file_path data create_dirs s = (Inr r, s'))
   \<and> (\<exists>r s'. list_directory self file_path include_hidden s = (Inr r, s'))
   \<and> (\<exists>r s'. search_files self file_path pattern include_content s = (Inr r, s'))
   \<and> (\<exists>r s'. handle_get_file_info self file_path s = (Inr r, s'))
   \<and> (\<exists>r s'. get_file_hash lib self file_path s = (Inr r, s'))
   \<and> (\<exists>b. is_path_allowed self p s = (Inr b, s))"
  unfolding read_file_def write_file_def list_directory_def search_files_def
    handle_get_file_info_def get_file_hash_def
  by (intro conjI try_except_total) (simp add: is_path_allowed_run)

lemma symlink_loop_is_denied:
  "realpath fs_loop (mkPath ''/sandbox/a'') = None
   \<and> read_file manager_sandbox ''/sandbox/a'' None fs_loop = (Inr (Inl AccessDenied), fs_loop)"
proof -
  have "realpath fs_loop (mkPath ''/sandbox/a'') = None"
    by (simp add: fs_loop_def run_defs)
  then show ?thesis
    by (simp add: read_file_denied path_ok_def)
qed

lemma storage_fault_is_result:
  "fst (list_directory manager_sandbox ''/sandbox'' False fs_loop) =
     Inr (Inl (FailedToList PermissionError))"
  by (simp add: list_directory_def fs_loop_def manager_sandbox_def run_defs)

subsection \<open>Search\<close>

text \<open>
  C3 (content match in the scenario). The claim wants one match of kind content on
  \<open>notes.txt\<close> for the pattern \<open>hello\<close>. The loop of \<open>search_files\<close> scans
  the content of an item only inside the branch taken when the pattern occurs in the
  item's name; \<open>hello\<close> does not occur in \<open>notes.txt\<close>, so the file, whose content
  \<open>read_file\<close> shows to be \<open>hello world\<close>, is not reported at all.
\<close>

theorem C3_content_only_match_missed:
  "fst (read_file manager_sandbox ''/sandbox/notes.txt'' None fs_sandbox) =
     Inr (Inr \<lparr> content = TextContent ''hello world'', size = 11,
                 file_info = Inr \<lparr> info_name = ''notes.txt'', info_path = ''/sandbox/notes.txt'',
                                    info_size = 11, info_is_file = True, info_is_dir = False,
                                    info_extension = ''.txt'' \<rparr> \<rparr>)
   \<and> fst (search_files manager_sandbox ''/sandbox'' ''hello'' True fs_sandbox) =
     Inr (Inr \<lparr> search_directory = ''/sandbox'', search_pattern = ''hello'',
                 matches = [], total_matches = 0 \<rparr>)"
proof -
  have "fst (read_file manager_sandbox ''/sandbox/notes.txt'' None fs_sandbox) =
     Inr (Inr \<lparr> content = TextContent ''hello world'', size = 11,
                 file_info = Inr \<lparr> info_name = ''notes.txt'', info_path = ''/sandbox/notes.txt'',
                                    info_size = 11, info_is_file = True, info_is_dir = False,
                                    info_extension = ''.txt'' \<rparr> \<rparr>)"
    by (simp add: read_file_def read_content_def manager_sandbox_def fs_sandbox_def run_defs policy_defs)
  moreover have "fst (search_files manager_sandbox ''/sandbox'' ''hello'' True fs_sandbox) =
     Inr (Inr \<lparr> search_directory = ''/sandbox'', search_pattern = ''hello'',
                 matches = [], total_matches = 0 \<rparr>)"
    by (simp add: search_files_def search_item_def rglob_def fs_sandbox_def manager_sandbox_def run_defs)
  ultimately show ?thesis by blast
qed


text \<open>
  C9 (matching-line cap). In every result of \<open>search_files\<close>, the list of matching lines
  attached to a match has at most 10 entries, however many lines of the file match.
\<close>

theorem C9_matching_lines_capped:
  assumes "search_files self search_dir pattern include_content s = (Inr (Inr r), s')"
    and "m \<in> set (matches r)"
    and "matching_lines m = Some ls"
  shows "length ls \<le> 10"
proof -
  have "list_all capped (matches r)"
    using returns_search_files assms(1) unfolding returns_def by fastforce
  then have "capped m" using assms(2) by (simp add: list_all_iff)
  then show ?thesis using assms(3) by (simp add: capped_def)
qed


theorem C9_matching_lines_capped_witness:
  "fst (search_files manager_sandbox ''/sandbox'' ''X'' True fs_lines) =
     Inr (Inr \<lparr> search_directory = ''/sandbox'', search_pattern = ''X'',
                 matches = [lines_match], total_matches = 1 \<rparr>)
   \<and> node_at fs_lines (mkPath ''/sandbox/x.txt'') =
       Inr (File (Text ''x\<newline>x\<newline>x\<newline>x\<newline>x\<newline>x\<newline>x\<newline>x\<newline>x\<newline>x\<newline>x\<newline>x''))
   \<and> length (find_matching_lines ''X''
         ''x\<newline>x\<newline>x\<newline>x\<newline>x\<newline>x\<newline>x\<newline>x\<newline>x\<newline>x\<newline>x\<newline>x'') = 12
   \<and> lines_match \<in> set [lines_match]
   \<and> matching_lines lines_match = Some [(1, ''x''), (2, ''x''), (3, ''x''), (4, ''x''), (5, ''x''),
                              (6, ''x''), (7, ''x''), (8, ''x''), (9, ''x''), (10, ''x'')]
   \<and> length [(1::nat, ''x''), (2, ''x''), (3, ''x''), (4, ''x''), (5, ''x''),
                              (6, ''x''), (7, ''x''), (8, ''x''), (9, ''x''), (10, ''x'')] \<le> 10"
proof -
  obtain s' where run: "search_files manager_sandbox ''/sandbox'' ''X'' True fs_lines =
     (Inr (Inr \<lparr> search_directory = ''/sandbox'', search_pattern = ''X'',
                  matches = [lines_match], total_matches = 1 \<rparr>), s')"
    using fs_lines_search2 by (cases "search_files manager_sandbox ''/sandbox'' ''X'' True fs_lines") simp
  have ml: "matching_lines lines_match = Some [(1, ''x''), (2, ''x''), (3, ''x''), (4, ''x''), (5, ''x''),
                              (6, ''x''), (7, ''x''), (8, ''x''), (9, ''x''), (10, ''x'')]"
    by (simp add: lines_match_def)
  have node: "node_at fs_lines (mkPath ''/sandbox/x.txt'') =
       Inr (File (Text ''x\<newline>x\<newline>x\<newline>x\<newline>x\<newline>x\<newline>x\<newline>x\<newline>x\<newline>x\<newline>x\<newline>x''))"
    by (simp add: fs_lines_def run_defs)
  have "length [(1::nat, ''x''), (2, ''x''), (3, ''x''), (4, ''x''), (5, ''x''),
                              (6, ''x''), (7, ''x''), (8, ''x''), (9, ''x''), (10, ''x'')] \<le> 10"
    using C9_matching_lines_capped [OF run _ ml] by simp
  then show ?thesis
    using fs_lines_search2 fs_lines_count ml node by simp
qed

text \<open>
  C10 (files without extension). The empty suffix is in neither list and the allow list is
  not empty, so the extension check fails for every path whose suffix is empty. Hence
  \<open>read_file\<close> on such a regular file inside an allowed directory (on fault-free
  storage) and \<open>write_file\<close> on such a path inside an allowed directory return the
  file-type error, \<open>write_file\<close> leaving the storage as it was; and \<open>search_files\<close>
  makes no \<open>read_text\<close> call on such a path (and no \<open>read_bytes\<close> call at all), so
  the log holds one after the search only if it held it before.
\<close>

theorem C10_extensionless_files:
  "[] \<notin> DANGEROUS_EXTENSIONS \<and> ALLOWED_EXTENSIONS \<noteq> {} \<and> [] \<notin> ALLOWED_EXTENSIONS
   \<and> (suffix p = [] \<longrightarrow> \<not> is_extension_allowed p)
   \<and> (suffix (mkPath file_path) = [] \<and> faults s = (\<lambda>a. None)
        \<and> fst (is_path_allowed self (mkPath file_path) s) = Inr True
        \<and> node_at s (mkPath file_path) = Inr (File c)
       \<longrightarrow> fst (read_file self file_path max_size s) = Inr (Inl (FileTypeNotAllowed [])))
   \<and> (suffix (mkPath file_path) = []
        \<and> fst (is_path_allowed self (mkPath file_path) s) = Inr True
       \<longrightarrow> write_file self file_path data create_dirs s = (Inr (Inl (FileTypeNotAllowed [])), s))
   \<and> (suffix p = [] \<longrightarrow>
         (ReadText p \<in> set (io_log (snd (search_files self search_dir pattern include_content s))))
         = (ReadText p \<in> set (io_log s)))
   \<and> (ReadBytes p \<in> set (io_log (snd (search_files self search_dir pattern include_content s))))
         = (ReadBytes p \<in> set (io_log s))"
proof -
  have cfg: "[] \<notin> DANGEROUS_EXTENSIONS" "ALLOWED_EXTENSIONS \<noteq> {}" "[] \<notin> ALLOWED_EXTENSIONS"
    by (simp_all add: policy_defs)
  have ext: "\<not> is_extension_allowed q" if "suffix q = []" for q
    using that cfg by (simp add: is_extension_allowed_def extension_allowed_in_def lower_def)
  have rd: "fst (read_file self file_path max_size s) = Inr (Inl (FileTypeNotAllowed []))"
    if "suffix (mkPath file_path) = []" "faults s = (\<lambda>a. None)"
      "fst (is_path_allowed self (mkPath file_path) s) = Inr True"
      "node_at s (mkPath file_path) = Inr (File c)"
    using read_file_regular [OF that(2,3,4), of max_size] ext [OF that(1)] that(1) by simp
  have wr: "write_file self file_path data create_dirs s = (Inr (Inl (FileTypeNotAllowed [])), s)"
    if "suffix (mkPath file_path) = []" "fst (is_path_allowed self (mkPath file_path) s) = Inr True"
    using that ext [OF that(1)]
    by (simp add: write_file_def is_path_allowed_run try_except_def bind_def return_def Let_def)
  obtain r s' where run: "search_files self search_dir pattern include_content s = (r, s')"
    by (cases "search_files self search_dir pattern include_content s")
  then obtain l where l: "io_log s' = io_log s @ l" "list_all scan_call l"
    using logs_onlyD [OF logs_only_search_files] by blast
  have no_text: "ReadText p \<notin> set l" if "suffix p = []"
  proof
    assume "ReadText p \<in> set l"
    then have "scan_call (ReadText p)" using l(2) by (auto simp add: list_all_iff)
    then show False using ext [OF that] by simp
  qed
  have no_bytes: "ReadBytes p \<notin> set l"
  proof
    assume "ReadBytes p \<in> set l"
    then have "scan_call (ReadBytes p)" using l(2) by (auto simp add: list_all_iff)
    then show False by simp
  qed
  show ?thesis
    using cfg ext rd wr no_text no_bytes run l(1) by auto
qed


theorem C10_extensionless_files_witness:
  "suffix (mkPath ''/sandbox/README'') = []
   \<and> faults fs_lines = (\<lambda>a. None)
   \<and> fst (is_path_allowed manager_sandbox (mkPath ''/sandbox/README'') fs_lines) = Inr True
   \<and> node_at fs_lines (mkPath ''/sandbox/README'') = Inr (File (Text ''read me''))
   \<and> \<not> is_extension_allowed (mkPath ''/sandbox/README'')
   \<and> fst (read_file manager_sandbox ''/sandbox/README'' None fs_lines) = Inr (Inl (FileTypeNotAllowed []))
   \<and> write_file manager_sandbox ''/sandbox/README'' ''data'' False fs_lines =
       (Inr (Inl (FileTypeNotAllowed [])), fs_lines)
   \<and> ReadText (mkPath ''/sandbox/README'')
       \<notin> set (io_log (snd (search_files manager_sandbox ''/sandbox'' ''read'' True fs_lines)))"
proof -
  have facts: "suffix (mkPath ''/sandbox/README'') = []"
    "faults fs_lines = (\<lambda>a. None)"
    "fst (is_path_allowed manager_sandbox (mkPath ''/sandbox/README'') fs_lines) = Inr True"
    "node_at fs_lines (mkPath ''/sandbox/README'') = Inr (File (Text ''read me''))"
    "io_log fs_lines = []"
    by (simp_all add: fs_lines_def manager_sandbox_def run_defs)
  show ?thesis
    using C10_extensionless_files [of "mkPath ''/sandbox/README''" "''/sandbox/README''" fs_lines
        manager_sandbox "Text ''read me''" None "''data''" False "''/sandbox''" "''read''" True]
      facts
    by simp
qed


end
